theory Spec2Isabelle
  imports Main "HOL-Library.AList"
begin

text \<open>
  UGC Flow is a wizard that takes selected personas through idea generation, requirement
  refinement, image generation, image editing and caption writing, each stage calling a
  generative model. This theory embeds the service layer (geminiService), the handlers
  of the App component that own the workflow state, and the storage mapping of
  lib/supabase.ts, and proves properties of them. The capability, the clock and the
  network are parameters (\<open>env\<close>); an exception is a value (\<open>exn\<close>).
\<close>

section \<open>JavaScript values and \<open>JSON.parse\<close>\<close>

text \<open>
  The capability returns text that the service layer hands to \<open>JSON.parse\<close>; the parsed
  value is untyped (\<open>any\<close>), and its fields are copied into the workflow records as they
  are. So the records below carry \<open>jsval\<close> where the response decides the
  content. Strings are byte strings: text outside ASCII is carried as its UTF-8
  encoding. A number keeps its lexeme; what the code asks of a number is only whether it
  is truthy, which is decided by the double that the lexeme denotes.
\<close>

datatype jsval =
    JUndefined
  | JNull
  | JBool bool
  | JNum string
  | JStr string
  | JArr "jsval list"
  | JObj "(string \<times> jsval) list"

definition isDigit :: "char \<Rightarrow> bool" where
  "isDigit c = (c \<in> set ''0123456789'')"

definition digitsValue :: "string \<Rightarrow> nat" where
  "digitsValue ds = foldl (\<lambda>a c. 10 * a + (of_char c - 48)) 0 ds"

text \<open>
  A number is falsy when its double is zero. The lexeme denotes \<open>m * 10 ^ k\<close>, with \<open>m\<close>
  the digits of the integer and fraction parts and \<open>k\<close> the exponent less the number of
  fraction digits; rounded to the nearest double, ties to even, this is zero exactly when
  it is at most \<open>2 ^ -1075\<close>, half of the least positive double. The sign is of no
  account. The comparison is made in the naturals.
\<close>

definition numNonzero :: "string \<Rightarrow> bool" where
  "numNonzero l =
     (let s = (case l of [] \<Rightarrow> [] | c # r \<Rightarrow> if c = CHR ''-'' then r else l);
          ip = takeWhile isDigit s;
          r1 = dropWhile isDigit s;
          fp = (case r1 of [] \<Rightarrow> [] | c # r \<Rightarrow> if c = CHR ''.'' then takeWhile isDigit r else []);
          r2 = (case r1 of [] \<Rightarrow> [] | c # r \<Rightarrow> if c = CHR ''.'' then dropWhile isDigit r else r1);
          ex = (case r2 of [] \<Rightarrow> [] | c # r \<Rightarrow> r);
          down = (case ex of [] \<Rightarrow> False | c # r \<Rightarrow> c = CHR ''-'');
          ed = (case ex of [] \<Rightarrow> [] | c # r \<Rightarrow> if c = CHR ''-'' \<or> c = CHR ''+'' then r else ex);
          m = digitsValue (ip @ fp);
          n = digitsValue ed
      in if down then 10 ^ (n + length fp) < m * 2 ^ 1075
         else if length fp \<le> n then 0 < m
         else 10 ^ (length fp - n) < m * 2 ^ 1075)"

fun truthy :: "jsval \<Rightarrow> bool" where
  "truthy JUndefined = False"
| "truthy JNull = False"
| "truthy (JBool b) = b"
| "truthy (JNum l) = numNonzero l"
| "truthy (JStr s) = (s \<noteq> [])"
| "truthy (JArr xs) = True"
| "truthy (JObj ms) = True"

text \<open>\<open>a || b\<close> on values.\<close>

definition orElse :: "jsval \<Rightarrow> jsval \<Rightarrow> jsval" where
  "orElse a b = (if truthy a then a else b)"

subsection \<open>Tokens\<close>

text \<open>
  The text is read character by character. Outside of a token, white space is skipped,
  a punctuation character is a token, and a quote, a digit or minus, or the first letter
  of \<open>true\<close>, \<open>false\<close>, \<open>null\<close> opens a string, a number or a literal. A string ends at
  the closing quote, with escapes decoded and control characters refused; a number takes
  every character that can occur in one and is checked against the grammar when it ends.
\<close>

datatype token =
    TLBracket | TRBracket | TLBrace | TRBrace | TComma | TColon
  | TString string | TNumber string | TTrue | TFalse | TNull

datatype lexstate =
    LStart
  | LString string
  | LEscape string
  | LUnicode string string
  | LNumber string
  | LLiteral string token

definition isHex :: "char \<Rightarrow> bool" where
  "isHex c = (c \<in> set ''0123456789abcdefABCDEF'')"

definition isNumChar :: "char \<Rightarrow> bool" where
  "isNumChar c = (isDigit c \<or> c \<in> set ''+-.eE'')"

definition isWhite :: "char \<Rightarrow> bool" where
  "isWhite c = (c = CHR '' '' \<or> c = CHR 0x09 \<or> c = CHR 0x0A \<or> c = CHR 0x0D)"

definition hexDigit :: "char \<Rightarrow> nat" where
  "hexDigit c =
     (if isDigit c then of_char c - 48
      else if c \<in> set ''abcdef'' then of_char c - 87
      else of_char c - 55)"

definition hexValue :: "string \<Rightarrow> nat" where
  "hexValue hs = foldl (\<lambda>a c. 16 * a + hexDigit c) 0 hs"

text \<open>
  A \<open>\uXXXX\<close> escape denotes one 16-bit unit. A unit by itself is stored as the three
  bytes (or fewer) that encode it. The low half of a surrogate pair that follows the high
  half makes one character with it, stored as the four bytes of that character, as the
  same character written out in the text is.
\<close>

definition encodeUnit :: "nat \<Rightarrow> string" where
  "encodeUnit v =
     (if v < 128 then [char_of v]
      else if v < 2048 then [char_of (192 + v div 64), char_of (128 + v mod 64)]
      else [char_of (224 + v div 4096), char_of (128 + (v div 64) mod 64),
            char_of (128 + v mod 64)])"

definition encodePair :: "nat \<Rightarrow> nat \<Rightarrow> string" where
  "encodePair hi lo =
     (let cp = 65536 + (hi - 55296) * 1024 + (lo - 56320)
      in [char_of (240 + cp div 262144), char_of (128 + (cp div 4096) mod 64),
          char_of (128 + (cp div 64) mod 64), char_of (128 + cp mod 64)])"

text \<open>The high surrogate whose three bytes end the string read so far, if there is one.\<close>

definition pendingHigh :: "string \<Rightarrow> nat option" where
  "pendingHigh acc =
     (case rev acc of
        c3 # c2 # c1 # rest \<Rightarrow>
          (let b1 = (of_char c1 :: nat); b2 = (of_char c2 :: nat); b3 = (of_char c3 :: nat)
           in if b1 = 237 \<and> 160 \<le> b2 \<and> b2 < 176 \<and> 128 \<le> b3 \<and> b3 < 192
              then Some (53248 + (b2 - 128) * 64 + (b3 - 128))
              else None)
      | _ \<Rightarrow> None)"

definition appendUnit :: "string \<Rightarrow> nat \<Rightarrow> string" where
  "appendUnit acc v =
     (case pendingHigh acc of
        None \<Rightarrow> acc @ encodeUnit v
      | Some hi \<Rightarrow>
          if 56320 \<le> v \<and> v < 57344
          then take (length acc - 3) acc @ encodePair hi v
          else acc @ encodeUnit v)"

definition unescape :: "char \<Rightarrow> char option" where
  "unescape c =
     (if c = CHR 0x22 then Some (CHR 0x22)
      else if c = CHR 0x5C then Some (CHR 0x5C)
      else if c = CHR ''/'' then Some (CHR ''/'')
      else if c = CHR ''b'' then Some (CHR 0x08)
      else if c = CHR ''f'' then Some (CHR 0x0C)
      else if c = CHR ''n'' then Some (CHR 0x0A)
      else if c = CHR ''r'' then Some (CHR 0x0D)
      else if c = CHR ''t'' then Some (CHR 0x09)
      else None)"

text \<open>
  The number grammar: an optional minus, \<open>0\<close> or a digit string without leading zero,
  an optional fraction, an optional exponent.
\<close>

definition expOk :: "string \<Rightarrow> bool" where
  "expOk r =
     (case r of
        [] \<Rightarrow> True
      | c # r2 \<Rightarrow>
          (c = CHR ''e'' \<or> c = CHR ''E'') \<and>
          (let r3 = (case r2 of
                       [] \<Rightarrow> []
                     | s # t \<Rightarrow> if s = CHR ''+'' \<or> s = CHR ''-'' then t else r2)
           in r3 \<noteq> [] \<and> list_all isDigit r3))"

definition fracExpOk :: "string \<Rightarrow> bool" where
  "fracExpOk r =
     (case r of
        [] \<Rightarrow> True
      | c # r2 \<Rightarrow>
          if c = CHR ''.''
          then takeWhile isDigit r2 \<noteq> [] \<and> expOk (dropWhile isDigit r2)
          else expOk r)"

definition validNumber :: "string \<Rightarrow> bool" where
  "validNumber s =
     (let s1 = (case s of [] \<Rightarrow> [] | c # r \<Rightarrow> if c = CHR ''-'' then r else s);
          ip = takeWhile isDigit s1
      in ip \<noteq> [] \<and> (hd ip = CHR ''0'' \<longrightarrow> length ip = 1) \<and>
         fracExpOk (dropWhile isDigit s1))"

definition lexStart :: "char \<Rightarrow> (token list \<times> lexstate) option" where
  "lexStart c =
     (if isWhite c then Some ([], LStart)
      else if c = CHR ''['' then Some ([TLBracket], LStart)
      else if c = CHR '']'' then Some ([TRBracket], LStart)
      else if c = CHR ''{'' then Some ([TLBrace], LStart)
      else if c = CHR ''}'' then Some ([TRBrace], LStart)
      else if c = CHR '','' then Some ([TComma], LStart)
      else if c = CHR '':'' then Some ([TColon], LStart)
      else if c = CHR 0x22 then Some ([], LString [])
      else if c = CHR ''-'' \<or> isDigit c then Some ([], LNumber [c])
      else if c = CHR ''t'' then Some ([], LLiteral ''rue'' TTrue)
      else if c = CHR ''f'' then Some ([], LLiteral ''alse'' TFalse)
      else if c = CHR ''n'' then Some ([], LLiteral ''ull'' TNull)
      else None)"

fun lexStep :: "lexstate \<Rightarrow> char \<Rightarrow> (token list \<times> lexstate) option" where
  "lexStep LStart c = lexStart c"
| "lexStep (LString acc) c =
     (if c = CHR 0x22 then Some ([TString acc], LStart)
      else if c = CHR 0x5C then Some ([], LEscape acc)
      else if (of_char c :: nat) < 32 then None
      else Some ([], LString (acc @ [c])))"
| "lexStep (LEscape acc) c =
     (case unescape c of
        Some d \<Rightarrow> Some ([], LString (acc @ [d]))
      | None \<Rightarrow> if c = CHR ''u'' then Some ([], LUnicode acc []) else None)"
| "lexStep (LUnicode acc hs) c =
     (if \<not> isHex c then None
      else if length hs = 3
      then Some ([], LString (appendUnit acc (hexValue (hs @ [c]))))
      else Some ([], LUnicode acc (hs @ [c])))"
| "lexStep (LNumber acc) c =
     (if isNumChar c then Some ([], LNumber (acc @ [c]))
      else if validNumber acc
      then (case lexStart c of
              None \<Rightarrow> None
            | Some (ts, st) \<Rightarrow> Some (TNumber acc # ts, st))
      else None)"
| "lexStep (LLiteral rest tok) c =
     (case rest of
        [] \<Rightarrow> None
      | r # rs \<Rightarrow>
          if c \<noteq> r then None
          else if rs = [] then Some ([tok], LStart)
          else Some ([], LLiteral rs tok))"

fun lexFinish :: "lexstate \<Rightarrow> token list option" where
  "lexFinish LStart = Some []"
| "lexFinish (LNumber acc) = (if validNumber acc then Some [TNumber acc] else None)"
| "lexFinish (LString acc) = None"
| "lexFinish (LEscape acc) = None"
| "lexFinish (LUnicode acc hs) = None"
| "lexFinish (LLiteral rest tok) = None"

fun lex :: "lexstate \<Rightarrow> string \<Rightarrow> token list option" where
  "lex st [] = lexFinish st"
| "lex st (c # cs) =
     (case lexStep st c of
        None \<Rightarrow> None
      | Some (ts, st') \<Rightarrow> map_option ((@) ts) (lex st' cs))"

subsection \<open>Values from tokens\<close>

text \<open>
  The grammar is run over the tokens with an explicit stack of the containers that are
  open: an array with the elements read so far, an object with its members and the key
  that waits for its value.
\<close>

datatype frame =
    FArr "jsval list"
  | FObj "(string \<times> jsval) list" "string option"

datatype pstate =
    PValue
  | PValueOrEnd
  | PKeyOrEnd
  | PKey
  | PColon
  | PNext
  | PDone jsval

fun reduce :: "jsval \<Rightarrow> frame list \<Rightarrow> (pstate \<times> frame list) option" where
  "reduce v [] = Some (PDone v, [])"
| "reduce v (FArr xs # st) = Some (PNext, FArr (xs @ [v]) # st)"
| "reduce v (FObj ms (Some k) # st) = Some (PNext, FObj (ms @ [(k, v)]) None # st)"
| "reduce v (FObj ms None # st) = None"

fun startValue :: "frame list \<Rightarrow> token \<Rightarrow> (pstate \<times> frame list) option" where
  "startValue st TLBracket = Some (PValueOrEnd, FArr [] # st)"
| "startValue st TLBrace = Some (PKeyOrEnd, FObj [] None # st)"
| "startValue st (TString s) = reduce (JStr s) st"
| "startValue st (TNumber l) = reduce (JNum l) st"
| "startValue st TTrue = reduce (JBool True) st"
| "startValue st TFalse = reduce (JBool False) st"
| "startValue st TNull = reduce JNull st"
| "startValue st TRBracket = None"
| "startValue st TRBrace = None"
| "startValue st TComma = None"
| "startValue st TColon = None"

fun closeArr :: "frame list \<Rightarrow> (pstate \<times> frame list) option" where
  "closeArr (FArr xs # st) = reduce (JArr xs) st"
| "closeArr _ = None"

fun closeObj :: "frame list \<Rightarrow> (pstate \<times> frame list) option" where
  "closeObj (FObj ms None # st) = reduce (JObj ms) st"
| "closeObj _ = None"

fun setKey :: "string \<Rightarrow> frame list \<Rightarrow> (pstate \<times> frame list) option" where
  "setKey k (FObj ms None # st) = Some (PColon, FObj ms (Some k) # st)"
| "setKey k _ = None"

fun afterComma :: "frame list \<Rightarrow> (pstate \<times> frame list) option" where
  "afterComma (FArr xs # st) = Some (PValue, FArr xs # st)"
| "afterComma (FObj ms None # st) = Some (PKey, FObj ms None # st)"
| "afterComma _ = None"

fun pstep :: "pstate \<Rightarrow> frame list \<Rightarrow> token \<Rightarrow> (pstate \<times> frame list) option" where
  "pstep PValue st t = startValue st t"
| "pstep PValueOrEnd st t = (if t = TRBracket then closeArr st else startValue st t)"
| "pstep PKeyOrEnd st t =
     (case t of TRBrace \<Rightarrow> closeObj st | TString k \<Rightarrow> setKey k st | _ \<Rightarrow> None)"
| "pstep PKey st t = (case t of TString k \<Rightarrow> setKey k st | _ \<Rightarrow> None)"
| "pstep PColon st t = (if t = TColon then Some (PValue, st) else None)"
| "pstep PNext st t =
     (case t of
        TComma \<Rightarrow> afterComma st
      | TRBracket \<Rightarrow> closeArr st
      | TRBrace \<Rightarrow> closeObj st
      | _ \<Rightarrow> None)"
| "pstep (PDone v) st t = None"

fun prun :: "pstate \<Rightarrow> frame list \<Rightarrow> token list \<Rightarrow> jsval option" where
  "prun ps st [] = (case ps of PDone v \<Rightarrow> Some v | _ \<Rightarrow> None)"
| "prun ps st (t # ts) =
     (case pstep ps st t of
        None \<Rightarrow> None
      | Some (ps', st') \<Rightarrow> prun ps' st' ts)"

text \<open>\<open>JSON.parse\<close>: \<open>None\<close> is the \<open>SyntaxError\<close> it throws.\<close>

definition JSON_parse :: "string \<Rightarrow> jsval option" where
  "JSON_parse s = (case lex LStart s of None \<Rightarrow> None | Some ts \<Rightarrow> prun PValue [] ts)"

text \<open>Property access \<open>r.k\<close> on a value that is neither \<open>null\<close> nor \<open>undefined\<close>
  (on those it throws, which the callers model); of a repeated key the last one counts.\<close>

fun getProp :: "jsval \<Rightarrow> string \<Rightarrow> jsval" where
  "getProp (JObj ms) k = (case map_of (rev ms) k of Some v \<Rightarrow> v | None \<Rightarrow> JUndefined)"
| "getProp _ k = JUndefined"

section \<open>Data model (types.ts)\<close>

text \<open>
  The field \<open>id\<close> of the four records is \<open>p_id\<close>, \<open>i_id\<close>, \<open>r_id\<close>, \<open>g_id\<close>, and
  \<open>name\<close> is \<open>p_name\<close>. The types of types.ts are erased when the program runs: the
  fields that the code fills from a parsed response (\<open>title\<close>, \<open>description\<close>,
  \<open>question\<close>, \<open>suggestion\<close>, and \<open>userResponse\<close>, which Auto-Fill sets to the
  suggestion) hold whatever value was parsed, and a caption is the parsed value itself.
\<close>

record Persona =
  p_id :: string
  p_name :: string
  location :: string
  country :: string
  niche :: "string list"
  bio :: string
  avatarUrl :: string
  refImages :: "string list"

record GeneratedIdea =
  i_id :: string
  personaId :: string
  title :: jsval
  description :: jsval
  selected :: bool

record RefinementRequirement =
  r_id :: string
  question :: jsval
  suggestion :: jsval
  userResponse :: jsval
  referenceImage :: "string option"

record GeneratedImage =
  g_id :: string
  ideaId :: string
  imageUrl :: string
  prompt :: string

datatype step =
  Dashboard | Selection | Ideation | Refinement | Generation | Editing | Captions | Complete

datatype mode = Manual | Auto

datatype quality = Q1K | Q2K | Q4K

text \<open>
  A \<open>Record<string, T>\<close> is an association list: \<open>map_of\<close> reads a key,
  \<open>AList.update\<close> writes one (in place when the key exists, at the end otherwise).
  The order of the keys is not observed by anything below, and the keys (ids of personas
  and ideas) are taken to differ from the property names every object inherits.
\<close>

type_synonym 'v dict = "(string \<times> 'v) list"

record WorkflowState =
  step :: step
  selectedPersonaIds :: "string list"
  mode :: "mode option"
  manualActivityInput :: string
  generatedIdeas :: "GeneratedIdea list dict"
  selectedIdeaIds :: "string dict"
  refinementData :: "RefinementRequirement list dict"
  generatedImages :: "GeneratedImage list dict"
  captions :: "jsval dict"

text \<open>\<open>Object.keys(d)\<close>.\<close>

definition objectKeys :: "'v dict \<Rightarrow> string list" where
  "objectKeys d = remdups (map fst d)"

section \<open>The generation capability\<close>

text \<open>What the code throws or lets through: a \<open>TypeError\<close> (a property of \<open>undefined\<close> or
  \<open>null\<close>, a call of what is no function), the \<open>SyntaxError\<close> of \<open>JSON.parse\<close>, the
  failure of a capability call, and the two errors \<open>editImageWithChat\<close> makes itself.\<close>

datatype exn = TypeError | SyntaxError | CapabilityError | Error string

datatype tool = GoogleSearch

datatype schema =
    SString
  | SArray schema
  | SObject "(string \<times> schema) list" "string list"

record imageConfig =
  imageSize :: "quality option"
  aspectRatio :: string

record genConfig =
  responseMimeType :: "string option"
  responseSchema :: "schema option"
  systemInstruction :: "string option"
  tools :: "tool list"
  imageCfg :: "imageConfig option"

datatype part = TextPart string | InlineData string string

record request =
  model :: string
  contents :: "part list"
  config :: genConfig

text \<open>What a call returns: \<open>response.text\<close>, and the parts of the first candidate
  (\<open>response.candidates?.[0]?.content?.parts || []\<close>).\<close>

record response =
  respText :: "string option"
  respParts :: "part list"

text \<open>The wording of the prompt templates is left open: a prompt is the template applied to
  the values it interpolates.\<close>

datatype prompt =
    EnhancePrompt Persona
  | ManualPrompt Persona string "string option"
  | TrendPrompt Persona
  | RequirementsPrompt GeneratedIdea Persona
  | ImagePrompt Persona GeneratedIdea "RefinementRequirement list"
  | EditPrompt string
  | CaptionPrompt Persona GeneratedIdea

text \<open>
  The world outside: \<open>respond n\<close> is the outcome of the \<open>n\<close>-th \<open>generateContent\<close>
  call of the session (\<open>None\<close>: the call throws); \<open>now n j\<close> is what \<open>Date.now()\<close>
  returns while the \<open>j\<close>-th element of that call's response is turned into a record;
  \<open>fetchBase64\<close> is \<open>urlToBase64\<close> (\<open>None\<close>: the fetch failed and \<open>null\<close> came back).
\<close>

record env =
  respond :: "nat \<Rightarrow> response option"
  now :: "nat \<Rightarrow> nat \<Rightarrow> nat"
  fetchBase64 :: "string \<Rightarrow> string option"
  template :: "prompt \<Rightarrow> string"

text \<open>Every call is appended to the list of requests issued so far.\<close>

definition generateContent :: "env \<Rightarrow> request \<Rightarrow> request list \<Rightarrow> response option \<times> request list" where
  "generateContent e req log = (respond e (length log), log @ [req])"

definition noConfig :: genConfig where
  "noConfig = \<lparr> responseMimeType = None, responseSchema = None, systemInstruction = None,
                tools = [], imageCfg = None \<rparr>"

text \<open>Decimal digits of a number, as a template literal prints it.\<close>

definition digitChar :: "nat \<Rightarrow> char" where
  "digitChar d = ''0123456789'' ! d"

function showNat :: "nat \<Rightarrow> string" where
  "showNat n =
     (if n < 10 then [digitChar n]
      else showNat (n div 10) @ [digitChar (n mod 10)])"
  by pat_completeness auto
termination
  by (relation "measure id") auto

declare showNat.simps [simp del]

text \<open>\<open>response.text || d\<close>.\<close>

definition textOr :: "response \<Rightarrow> string \<Rightarrow> string" where
  "textOr r d = (case respText r of None \<Rightarrow> d | Some t \<Rightarrow> if t = [] then d else t)"

text \<open>\<open>raw.map((r, i) => ...)\<close>: a callback that throws ends the map; a value that is
  not an array has no \<open>map\<close>.\<close>

fun mapThrow :: "(nat \<Rightarrow> 'a \<Rightarrow> exn + 'b) \<Rightarrow> nat \<Rightarrow> 'a list \<Rightarrow> exn + 'b list" where
  "mapThrow f i [] = Inr []"
| "mapThrow f i (x # xs) =
     (case f i x of
        Inl e \<Rightarrow> Inl e
      | Inr y \<Rightarrow> (case mapThrow f (Suc i) xs of Inl e \<Rightarrow> Inl e | Inr ys \<Rightarrow> Inr (y # ys)))"

definition arrayMap :: "(nat \<Rightarrow> jsval \<Rightarrow> exn + 'b) \<Rightarrow> jsval \<Rightarrow> exn + 'b list" where
  "arrayMap f raw = (case raw of JArr xs \<Rightarrow> mapThrow f 0 xs | _ \<Rightarrow> Inl TypeError)"

definition nullish :: "jsval \<Rightarrow> bool" where
  "nullish v = (v = JNull \<or> v = JUndefined)"

section \<open>geminiService\<close>

subsection \<open>Ideation\<close>

definition variantSchema :: schema where
  "variantSchema =
     SArray (SObject [(''title'', SString), (''description'', SString)]
                     [''title'', ''description''])"

definition manualRequest :: "env \<Rightarrow> Persona \<Rightarrow> string \<Rightarrow> string option \<Rightarrow> request" where
  "manualRequest e persona activity feedback =
     \<lparr> model = ''gemini-3-pro-preview'',
       contents = [TextPart (template e (ManualPrompt persona activity feedback))],
       config = noConfig
         \<lparr> responseMimeType := Some ''application/json'',
           responseSchema := Some variantSchema,
           systemInstruction := Some ''You are an expert UGC strategist. Output valid JSON.'' \<rparr> \<rparr>"

definition manualIdea :: "env \<Rightarrow> nat \<Rightarrow> Persona \<Rightarrow> nat \<Rightarrow> jsval \<Rightarrow> exn + GeneratedIdea" where
  "manualIdea e n persona i r =
     (if nullish r then Inl TypeError
      else Inr \<lparr> i_id = p_id persona @ ''-idea-'' @ showNat (now e n i) @ ''-'' @ showNat i,
                 personaId = p_id persona,
                 title = getProp r ''title'',
                 description = getProp r ''description'',
                 selected = False \<rparr>)"

text \<open>The persona is what \<open>personas.find(...)!\<close> gave the caller: on \<open>undefined\<close> the
  prompt template throws before any call is made.\<close>

definition generateManualVariants ::
  "env \<Rightarrow> Persona option \<Rightarrow> string \<Rightarrow> string option \<Rightarrow> request list
     \<Rightarrow> (exn + GeneratedIdea list) \<times> request list" where
  "generateManualVariants e persona activity feedback log =
     (case persona of
        None \<Rightarrow> (Inl TypeError, log)
      | Some p \<Rightarrow>
          (case generateContent e (manualRequest e p activity feedback) log of
             (None, log') \<Rightarrow> (Inl CapabilityError, log')
           | (Some resp, log') \<Rightarrow>
               (case JSON_parse (textOr resp ''[]'') of
                  None \<Rightarrow> (Inl SyntaxError, log')
                | Some raw \<Rightarrow> (arrayMap (manualIdea e (length log) p) raw, log'))))"

definition trendRequest :: "env \<Rightarrow> Persona \<Rightarrow> request" where
  "trendRequest e persona =
     \<lparr> model = ''gemini-3-pro-preview'',
       contents = [TextPart (template e (TrendPrompt persona))],
       config = noConfig \<lparr> tools := [GoogleSearch] \<rparr> \<rparr>"

text \<open>\<open>text.match(/\[[\s\S]*\]/)\<close>: the match starts at the first \<open>[\<close> and, the star
  being greedy, ends at the last \<open>]\<close> of the text.\<close>

definition jsonMatch :: "string \<Rightarrow> string option" where
  "jsonMatch t =
     (let r = dropWhile (\<lambda>c. c \<noteq> CHR ''['') t
      in if r = [] then None
         else (let body = rev (dropWhile (\<lambda>c. c \<noteq> CHR '']'') (rev (tl r)))
               in if body = [] then None else Some (CHR ''['' # body)))"

definition trendRaw :: "response \<Rightarrow> jsval" where
  "trendRaw resp =
     (case jsonMatch (textOr resp []) of
        None \<Rightarrow> JArr []
      | Some m \<Rightarrow> (case JSON_parse m of None \<Rightarrow> JArr [] | Some v \<Rightarrow> v))"

definition trendIdea :: "env \<Rightarrow> nat \<Rightarrow> Persona \<Rightarrow> nat \<Rightarrow> jsval \<Rightarrow> exn + GeneratedIdea" where
  "trendIdea e n persona i r =
     (if nullish r then Inl TypeError
      else Inr \<lparr> i_id = p_id persona @ ''-trend-'' @ showNat (now e n i) @ ''-'' @ showNat i,
                 personaId = p_id persona,
                 title = orElse (getProp r ''title'') (JStr ''Trending Idea''),
                 description = orElse (getProp r ''description'') (JStr ''Description unavailable''),
                 selected = False \<rparr>)"

definition generateAutoTrends ::
  "env \<Rightarrow> Persona option \<Rightarrow> request list \<Rightarrow> (exn + GeneratedIdea list) \<times> request list" where
  "generateAutoTrends e persona log =
     (case persona of
        None \<Rightarrow> (Inl TypeError, log)
      | Some p \<Rightarrow>
          (case generateContent e (trendRequest e p) log of
             (None, log') \<Rightarrow> (Inl CapabilityError, log')
           | (Some resp, log') \<Rightarrow> (arrayMap (trendIdea e (length log) p) (trendRaw resp), log')))"

subsection \<open>Refinement\<close>

definition requirementSchema :: schema where
  "requirementSchema =
     SArray (SObject [(''question'', SString), (''suggestion'', SString)]
                     [''question'', ''suggestion''])"

definition requirementsRequest :: "env \<Rightarrow> GeneratedIdea \<Rightarrow> Persona \<Rightarrow> request" where
  "requirementsRequest e idea persona =
     \<lparr> model = ''gemini-3-pro-preview'',
       contents = [TextPart (template e (RequirementsPrompt idea persona))],
       config = noConfig
         \<lparr> responseMimeType := Some ''application/json'',
           responseSchema := Some requirementSchema \<rparr> \<rparr>"

definition requirementOf :: "GeneratedIdea \<Rightarrow> nat \<Rightarrow> jsval \<Rightarrow> exn + RefinementRequirement" where
  "requirementOf idea i r =
     (if nullish r then Inl TypeError
      else Inr \<lparr> r_id = i_id idea @ ''-req-'' @ showNat i,
                 question = getProp r ''question'',
                 suggestion = getProp r ''suggestion'',
                 userResponse = JStr [],
                 referenceImage = None \<rparr>)"

definition analyzeIdeaRequirements ::
  "env \<Rightarrow> GeneratedIdea \<Rightarrow> Persona option \<Rightarrow> request list
     \<Rightarrow> (exn + RefinementRequirement list) \<times> request list" where
  "analyzeIdeaRequirements e idea persona log =
     (case persona of
        None \<Rightarrow> (Inl TypeError, log)
      | Some p \<Rightarrow>
          (case generateContent e (requirementsRequest e idea p) log of
             (None, log') \<Rightarrow> (Inl CapabilityError, log')
           | (Some resp, log') \<Rightarrow>
               (case JSON_parse (textOr resp ''[]'') of
                  None \<Rightarrow> (Inl SyntaxError, log')
                | Some raw \<Rightarrow> (arrayMap (requirementOf idea) raw, log'))))"

subsection \<open>Image generation and editing\<close>

definition startsWith :: "string \<Rightarrow> string \<Rightarrow> bool" where
  "startsWith s p = (take (length p) s = p)"

definition jpeg :: "string \<Rightarrow> part" where
  "jpeg d = InlineData ''image/jpeg'' d"

text \<open>The reference images of the persona: a URL is fetched and left out when the fetch
  gives nothing; anything else is taken to be the image data itself.\<close>

fun personaRefParts :: "env \<Rightarrow> string list \<Rightarrow> part list" where
  "personaRefParts e [] = []"
| "personaRefParts e (u # us) =
     (if startsWith u ''http''
      then (case fetchBase64 e u of
              None \<Rightarrow> []
            | Some b \<Rightarrow> if b = [] then [] else [jpeg b])
      else [jpeg u]) @ personaRefParts e us"

fun requirementRefParts :: "RefinementRequirement list \<Rightarrow> part list" where
  "requirementRefParts [] = []"
| "requirementRefParts (r # rs) =
     (case referenceImage r of
        None \<Rightarrow> []
      | Some d \<Rightarrow> if d = [] then [] else [jpeg d]) @ requirementRefParts rs"

definition imageRequest ::
  "env \<Rightarrow> Persona \<Rightarrow> GeneratedIdea \<Rightarrow> RefinementRequirement list \<Rightarrow> quality \<Rightarrow> request" where
  "imageRequest e persona idea reqs q =
     \<lparr> model = ''gemini-3-pro-image-preview'',
       contents = TextPart (template e (ImagePrompt persona idea reqs))
                    # personaRefParts e (refImages persona) @ requirementRefParts reqs,
       config = noConfig
         \<lparr> imageCfg := Some \<lparr> imageSize = Some q, aspectRatio = ''4:5'' \<rparr> \<rparr> \<rparr>"

definition pngUrl :: "string \<Rightarrow> string" where
  "pngUrl d = ''data:image/png;base64,'' @ d"

text \<open>The images of one response: one per part that carries inline data, all with the
  index \<open>i\<close> of the call in their id.\<close>

fun imagesOfParts ::
  "env \<Rightarrow> nat \<Rightarrow> string \<Rightarrow> string \<Rightarrow> nat \<Rightarrow> nat \<Rightarrow> part list \<Rightarrow> GeneratedImage list" where
  "imagesOfParts e n iid fullPrompt i j [] = []"
| "imagesOfParts e n iid fullPrompt i j (TextPart t # ps) =
     imagesOfParts e n iid fullPrompt i (Suc j) ps"
| "imagesOfParts e n iid fullPrompt i j (InlineData m d # ps) =
     \<lparr> g_id = iid @ ''-img-'' @ showNat (now e n j) @ ''-'' @ showNat i,
       ideaId = iid,
       imageUrl = pngUrl d,
       prompt = fullPrompt \<rparr> # imagesOfParts e n iid fullPrompt i (Suc j) ps"

text \<open>\<open>for (let i = 0; i < count; i++) { try { ... } catch (e) { } }\<close>, with \<open>k\<close> the
  rounds that are left: a call that throws adds nothing and the loop goes on.\<close>

fun imageLoop ::
  "env \<Rightarrow> request \<Rightarrow> string \<Rightarrow> string \<Rightarrow> nat \<Rightarrow> nat \<Rightarrow> GeneratedImage list \<Rightarrow> request list
     \<Rightarrow> GeneratedImage list \<times> request list" where
  "imageLoop e req iid fullPrompt i 0 results log = (results, log)"
| "imageLoop e req iid fullPrompt i (Suc k) results log =
     (case generateContent e req log of
        (None, log') \<Rightarrow> imageLoop e req iid fullPrompt (Suc i) k results log'
      | (Some resp, log') \<Rightarrow>
          imageLoop e req iid fullPrompt (Suc i) k
            (results @ imagesOfParts e (length log) iid fullPrompt i 0 (respParts resp)) log')"

definition generateUGCImages ::
  "env \<Rightarrow> Persona option \<Rightarrow> GeneratedIdea option \<Rightarrow> RefinementRequirement list \<Rightarrow> nat \<Rightarrow> quality
     \<Rightarrow> request list \<Rightarrow> (exn + GeneratedImage list) \<times> request list" where
  "generateUGCImages e persona idea reqs count q log =
     (case persona of
        None \<Rightarrow> (Inl TypeError, log)
      | Some p \<Rightarrow>
          (case idea of
             None \<Rightarrow> (Inl TypeError, log)
           | Some i \<Rightarrow>
               (case imageLoop e (imageRequest e p i reqs q) (i_id i)
                       (template e (ImagePrompt p i reqs)) 0 count [] log of
                  (results, log') \<Rightarrow> (Inr results, log'))))"

text \<open>\<open>s.split(',')\<close>.\<close>

fun splitOn :: "char \<Rightarrow> string \<Rightarrow> string list" where
  "splitOn c [] = [[]]"
| "splitOn c (x # xs) =
     (if x = c then [] # splitOn c xs
      else (case splitOn c xs of [] \<Rightarrow> [[x]] | s # ss \<Rightarrow> (x # s) # ss))"

definition editRequest :: "env \<Rightarrow> string \<Rightarrow> string \<Rightarrow> string option \<Rightarrow> request" where
  "editRequest e base64Data instruction reference =
     \<lparr> model = ''gemini-3-pro-image-preview'',
       contents = [InlineData ''image/png'' base64Data, TextPart (template e (EditPrompt instruction))]
                    @ (case reference of
                         None \<Rightarrow> []
                       | Some d \<Rightarrow> if d = [] then [] else [InlineData ''image/png'' d]),
       config = noConfig
         \<lparr> imageCfg := Some \<lparr> imageSize = None, aspectRatio = ''4:5'' \<rparr> \<rparr> \<rparr>"

fun firstInlineData :: "part list \<Rightarrow> string option" where
  "firstInlineData [] = None"
| "firstInlineData (TextPart t # ps) = firstInlineData ps"
| "firstInlineData (InlineData m d # ps) = Some d"

definition editImageWithChat ::
  "env \<Rightarrow> GeneratedImage option \<Rightarrow> string \<Rightarrow> string option \<Rightarrow> request list
     \<Rightarrow> (exn + GeneratedImage) \<times> request list" where
  "editImageWithChat e imageToEdit instruction reference log =
     (case imageToEdit of
        None \<Rightarrow> (Inl TypeError, log)
      | Some img \<Rightarrow>
          (case splitOn (CHR '','') (imageUrl img) of
             a # base64Data # rest \<Rightarrow>
               if base64Data = [] then (Inl (Error ''Invalid image data''), log)
               else (case generateContent e (editRequest e base64Data instruction reference) log of
                       (None, log') \<Rightarrow> (Inl CapabilityError, log')
                     | (Some resp, log') \<Rightarrow>
                         (case firstInlineData (respParts resp) of
                            Some d \<Rightarrow> (Inr (img \<lparr> imageUrl := pngUrl d \<rparr>), log')
                          | None \<Rightarrow> (Inl (Error ''No image returned from edit''), log')))
           | _ \<Rightarrow> (Inl (Error ''Invalid image data''), log)))"

subsection \<open>Captions and persona enhancement\<close>

definition captionSchema :: schema where
  "captionSchema =
     SObject [(''caption'', SString), (''hashtags'', SArray SString)] [''caption'', ''hashtags'']"

definition captionRequest :: "env \<Rightarrow> Persona \<Rightarrow> GeneratedIdea \<Rightarrow> request" where
  "captionRequest e persona idea =
     \<lparr> model = ''gemini-3-pro-preview'',
       contents = [TextPart (template e (CaptionPrompt persona idea))],
       config = noConfig
         \<lparr> responseMimeType := Some ''application/json'',
           responseSchema := Some captionSchema \<rparr> \<rparr>"

definition generateCaptionStrategy ::
  "env \<Rightarrow> Persona option \<Rightarrow> GeneratedIdea option \<Rightarrow> request list
     \<Rightarrow> (exn + jsval) \<times> request list" where
  "generateCaptionStrategy e persona idea log =
     (case idea of
        None \<Rightarrow> (Inl TypeError, log)
      | Some i \<Rightarrow>
          (case persona of
             None \<Rightarrow> (Inl TypeError, log)
           | Some p \<Rightarrow>
               (case generateContent e (captionRequest e p i) log of
                  (None, log') \<Rightarrow> (Inl CapabilityError, log')
                | (Some resp, log') \<Rightarrow>
                    (case JSON_parse (textOr resp ''{\"caption\":\"\", \"hashtags\":[]}'') of
                       None \<Rightarrow> (Inl SyntaxError, log')
                     | Some v \<Rightarrow> (Inr v, log')))))"

definition personaSchema :: schema where
  "personaSchema =
     SObject [(''name'', SString), (''location'', SString), (''country'', SString),
              (''niche'', SArray SString), (''bio'', SString)]
             [''name'', ''location'', ''country'', ''niche'', ''bio'']"

fun fetchedParts :: "env \<Rightarrow> string list \<Rightarrow> part list" where
  "fetchedParts e [] = []"
| "fetchedParts e (u # us) =
     (case fetchBase64 e u of
        None \<Rightarrow> []
      | Some b \<Rightarrow> if b = [] then [] else [jpeg b]) @ fetchedParts e us"

definition enhanceRequest :: "env \<Rightarrow> Persona \<Rightarrow> request" where
  "enhanceRequest e profile =
     \<lparr> model = ''gemini-3-pro-preview'',
       contents = TextPart (template e (EnhancePrompt profile))
                    # (if avatarUrl profile = [] then [] else fetchedParts e [avatarUrl profile])
                    @ fetchedParts e (refImages profile),
       config = noConfig
         \<lparr> responseMimeType := Some ''application/json'',
           responseSchema := Some personaSchema,
           systemInstruction :=
             Some ''You are a creative AI assistant. Analyze visual cues to build personas.'' \<rparr> \<rparr>"

text \<open>The result is what was parsed, or the profile that came in when the text does not
  parse.\<close>

datatype enhanced = Parsed jsval | Kept Persona

definition enhancePersonaProfile ::
  "env \<Rightarrow> Persona \<Rightarrow> request list \<Rightarrow> (exn + enhanced) \<times> request list" where
  "enhancePersonaProfile e profile log =
     (case generateContent e (enhanceRequest e profile) log of
        (None, log') \<Rightarrow> (Inl CapabilityError, log')
      | (Some resp, log') \<Rightarrow>
          (case JSON_parse (textOr resp ''{}'') of
             Some v \<Rightarrow> (Inr (Parsed v), log')
           | None \<Rightarrow> (Inr (Kept profile), log')))"

section \<open>The workflow engine (App)\<close>

text \<open>
  The state of the component: the personas, the workflow state, the busy flag with its
  message, the error shown to the user, the generation settings, the edit inputs, and
  (not in the source) the list of capability requests issued so far.
\<close>

record app =
  personas :: "Persona list"
  wstate :: WorkflowState
  loading :: bool
  loadingMsg :: string
  errorMsg :: "string option"
  genCount :: nat
  genQuality :: quality
  editInputs :: "string dict"
  requests :: "request list"

definition initialState :: WorkflowState where
  "initialState =
     \<lparr> step = Dashboard, selectedPersonaIds = [], mode = None, manualActivityInput = [],
       generatedIdeas = [], selectedIdeaIds = [], refinementData = [], generatedImages = [],
       captions = [] \<rparr>"

definition findPersona :: "Persona list \<Rightarrow> string \<Rightarrow> Persona option" where
  "findPersona ps pid = find (\<lambda>p. p_id p = pid) ps"

text \<open>\<open>state.selectedIdeaIds[pid]\<close> when it is truthy.\<close>

definition selectedIdeaOf :: "WorkflowState \<Rightarrow> string \<Rightarrow> string option" where
  "selectedIdeaOf s pid =
     (case map_of (selectedIdeaIds s) pid of
        None \<Rightarrow> None
      | Some iid \<Rightarrow> if iid = [] then None else Some iid)"

subsection \<open>Personas and selection\<close>

definition handleDeletePersona :: "bool \<Rightarrow> string \<Rightarrow> app \<Rightarrow> app" where
  "handleDeletePersona confirmed pid a =
     (if confirmed
      then a \<lparr> personas := filter (\<lambda>p. p_id p \<noteq> pid) (personas a),
               wstate := (wstate a)
                 \<lparr> selectedPersonaIds := filter (\<lambda>x. x \<noteq> pid) (selectedPersonaIds (wstate a)) \<rparr> \<rparr>
      else a)"

definition handleStartCreating :: "app \<Rightarrow> app" where
  "handleStartCreating a = a \<lparr> wstate := (wstate a) \<lparr> step := Selection \<rparr> \<rparr>"

definition togglePersonaSelection :: "string \<Rightarrow> app \<Rightarrow> app" where
  "togglePersonaSelection pid a =
     a \<lparr> wstate := (wstate a)
           \<lparr> selectedPersonaIds :=
               (if pid \<in> set (selectedPersonaIds (wstate a))
                then filter (\<lambda>x. x \<noteq> pid) (selectedPersonaIds (wstate a))
                else selectedPersonaIds (wstate a) @ [pid]) \<rparr> \<rparr>"

text \<open>The back arrow of the selection view.\<close>

definition backToDashboard :: "app \<Rightarrow> app" where
  "backToDashboard a = a \<lparr> wstate := (wstate a) \<lparr> step := Dashboard \<rparr> \<rparr>"

definition proceedToIdeation :: "app \<Rightarrow> app" where
  "proceedToIdeation a =
     (if selectedPersonaIds (wstate a) = [] then a
      else a \<lparr> wstate := (wstate a) \<lparr> step := Ideation \<rparr> \<rparr>)"

subsection \<open>Ideation\<close>

text \<open>The inline handlers of the ideation view: the choice of the manual mode, the way
  back from it, and the text of the brief.\<close>

definition chooseManual :: "app \<Rightarrow> app" where
  "chooseManual a = a \<lparr> wstate := (wstate a) \<lparr> mode := Some Manual \<rparr> \<rparr>"

definition backToModes :: "app \<Rightarrow> app" where
  "backToModes a = a \<lparr> wstate := (wstate a) \<lparr> mode := None \<rparr> \<rparr>"

definition setManualActivityInput :: "string \<Rightarrow> app \<Rightarrow> app" where
  "setManualActivityInput t a = a \<lparr> wstate := (wstate a) \<lparr> manualActivityInput := t \<rparr> \<rparr>"

fun ideasLoop ::
  "env \<Rightarrow> Persona list \<Rightarrow> mode \<Rightarrow> string \<Rightarrow> string list \<Rightarrow> GeneratedIdea list dict \<Rightarrow> request list
     \<Rightarrow> (exn + GeneratedIdea list dict) \<times> request list" where
  "ideasLoop e ps m activity [] ideasMap log = (Inr ideasMap, log)"
| "ideasLoop e ps m activity (pid # pids) ideasMap log =
     (case (case m of
              Manual \<Rightarrow> generateManualVariants e (findPersona ps pid) activity None log
            | Auto \<Rightarrow> generateAutoTrends e (findPersona ps pid) log) of
        (Inl err, log') \<Rightarrow> (Inl err, log')
      | (Inr ideas, log') \<Rightarrow>
          ideasLoop e ps m activity pids (AList.update pid ideas ideasMap) log')"

definition generateIdeas :: "env \<Rightarrow> mode \<Rightarrow> app \<Rightarrow> app" where
  "generateIdeas e m a =
     (let a1 = a \<lparr> loading := True,
                    loadingMsg := (case m of Manual \<Rightarrow> ''Concepting variants...''
                                          | Auto \<Rightarrow> ''Scanning trends...''),
                    errorMsg := None \<rparr>
      in case ideasLoop e (personas a) m (manualActivityInput (wstate a))
                (selectedPersonaIds (wstate a)) [] (requests a) of
           (Inl err, log') \<Rightarrow>
             a1 \<lparr> errorMsg := Some ''Failed to generate ideas. Ensure API Key is set.'',
                  loading := False, requests := log' \<rparr>
         | (Inr ideasMap, log') \<Rightarrow>
             a1 \<lparr> wstate := (wstate a)
                     \<lparr> generatedIdeas := ideasMap, mode := Some m, step := Ideation \<rparr>,
                  loading := False, requests := log' \<rparr>)"

text \<open>\<open>regenerateIdea\<close> has \<open>try ... finally\<close> and no \<open>catch\<close>: when the call throws,
  only the busy flag is reset.\<close>

definition regenerateIdea :: "env \<Rightarrow> string \<Rightarrow> app \<Rightarrow> app" where
  "regenerateIdea e pid a =
     (case (if mode (wstate a) = Some Manual
            then generateManualVariants e (findPersona (personas a) pid)
                   (manualActivityInput (wstate a))
                   (Some ''Try different angles or locations.'') (requests a)
            else generateAutoTrends e (findPersona (personas a) pid) (requests a)) of
        (Inl err, log') \<Rightarrow> a \<lparr> loading := False, requests := log' \<rparr>
      | (Inr newIdeas, log') \<Rightarrow>
          a \<lparr> wstate := (wstate a)
                \<lparr> generatedIdeas := AList.update pid newIdeas (generatedIdeas (wstate a)) \<rparr>,
              loading := False, requests := log' \<rparr>)"

definition selectIdea :: "string \<Rightarrow> string \<Rightarrow> app \<Rightarrow> app" where
  "selectIdea pid iid a =
     a \<lparr> wstate := (wstate a)
           \<lparr> selectedIdeaIds := AList.update pid iid (selectedIdeaIds (wstate a)) \<rparr> \<rparr>"

subsection \<open>Refinement\<close>

fun refinementLoop ::
  "env \<Rightarrow> Persona list \<Rightarrow> WorkflowState \<Rightarrow> string list \<Rightarrow> RefinementRequirement list dict
     \<Rightarrow> request list \<Rightarrow> (exn + RefinementRequirement list dict) \<times> request list" where
  "refinementLoop e ps s [] refinementMap log = (Inr refinementMap, log)"
| "refinementLoop e ps s (pid # pids) refinementMap log =
     (case selectedIdeaOf s pid of
        None \<Rightarrow> refinementLoop e ps s pids refinementMap log
      | Some iid \<Rightarrow>
          (case map_of (generatedIdeas s) pid of
             None \<Rightarrow> (Inl TypeError, log)
           | Some ideas \<Rightarrow>
               (case find (\<lambda>i. i_id i = iid) ideas of
                  None \<Rightarrow> refinementLoop e ps s pids refinementMap log
                | Some selectedIdea \<Rightarrow>
                    (case analyzeIdeaRequirements e selectedIdea (findPersona ps pid) log of
                       (Inl err, log') \<Rightarrow> (Inl err, log')
                     | (Inr reqs, log') \<Rightarrow>
                         refinementLoop e ps s pids
                           (AList.update (i_id selectedIdea) reqs refinementMap) log'))))"

definition proceedToRefinement :: "env \<Rightarrow> app \<Rightarrow> app" where
  "proceedToRefinement e a =
     (let a1 = a \<lparr> loading := True, loadingMsg := ''Analyzing scene requirements...'',
                    errorMsg := None \<rparr>
      in case refinementLoop e (personas a) (wstate a) (selectedPersonaIds (wstate a)) []
                (requests a) of
           (Inl err, log') \<Rightarrow>
             a1 \<lparr> errorMsg := Some ''Analysis failed.'', loading := False, requests := log' \<rparr>
         | (Inr refinementMap, log') \<Rightarrow>
             a1 \<lparr> wstate := (wstate a) \<lparr> refinementData := refinementMap, step := Refinement \<rparr>,
                  loading := False, requests := log' \<rparr>)"

text \<open>The inputs of the refinement view. Where the requirements of the idea are missing
  the state updater throws and the state stays.\<close>

definition handleRefinementInput :: "string \<Rightarrow> string \<Rightarrow> jsval \<Rightarrow> app \<Rightarrow> app" where
  "handleRefinementInput iid reqId val a =
     (case map_of (refinementData (wstate a)) iid of
        None \<Rightarrow> a
      | Some reqs \<Rightarrow>
          a \<lparr> wstate := (wstate a)
                \<lparr> refinementData :=
                    AList.update iid
                      (map (\<lambda>r. if r_id r = reqId then r \<lparr> userResponse := val \<rparr> else r) reqs)
                      (refinementData (wstate a)) \<rparr> \<rparr>)"

definition useSuggestion :: "string \<Rightarrow> string \<Rightarrow> app \<Rightarrow> app" where
  "useSuggestion iid reqId a =
     (case map_of (refinementData (wstate a)) iid of
        None \<Rightarrow> a
      | Some reqs \<Rightarrow>
          (case find (\<lambda>r. r_id r = reqId) reqs of
             None \<Rightarrow> a
           | Some req \<Rightarrow> handleRefinementInput iid reqId (suggestion req) a))"

text \<open>\<open>base64Full\<close> is what reading the file gave (\<open>None\<close>: it failed, and only an alert
  is shown); the reference image is the field after its first comma.\<close>

definition handleRefinementImage :: "string \<Rightarrow> string \<Rightarrow> string option \<Rightarrow> app \<Rightarrow> app" where
  "handleRefinementImage iid reqId base64Full a =
     (case base64Full of
        None \<Rightarrow> a
      | Some b \<Rightarrow>
          (case map_of (refinementData (wstate a)) iid of
             None \<Rightarrow> a
           | Some reqs \<Rightarrow>
               a \<lparr> wstate := (wstate a)
                     \<lparr> refinementData :=
                         AList.update iid
                           (map (\<lambda>r. if r_id r = reqId
                                      then r \<lparr> referenceImage :=
                                               (case splitOn (CHR '','') b of
                                                  x # cleanBase64 # rest \<Rightarrow> Some cleanBase64
                                                | _ \<Rightarrow> None) \<rparr>
                                      else r) reqs)
                           (refinementData (wstate a)) \<rparr> \<rparr>))"

text \<open>The Next Step button of the ideation view: it is shown once there are generated
  ideas, and it is disabled while the number of keys of \<open>selectedIdeaIds\<close> differs from the
  number of selected personas.\<close>

definition nextStepDisabled :: "WorkflowState \<Rightarrow> bool" where
  "nextStepDisabled s =
     (length (objectKeys (selectedIdeaIds s)) \<noteq> length (selectedPersonaIds s))"

definition clickNextStep :: "env \<Rightarrow> app \<Rightarrow> app" where
  "clickNextStep e a =
     (if step (wstate a) = Ideation \<and> objectKeys (generatedIdeas (wstate a)) \<noteq> []
         \<and> \<not> nextStepDisabled (wstate a)
      then proceedToRefinement e a else a)"

subsection \<open>Generation and editing\<close>

fun generationLoop ::
  "env \<Rightarrow> Persona list \<Rightarrow> WorkflowState \<Rightarrow> nat \<Rightarrow> quality \<Rightarrow> string list
     \<Rightarrow> GeneratedImage list dict \<Rightarrow> request list
     \<Rightarrow> (exn + GeneratedImage list dict) \<times> request list" where
  "generationLoop e ps s count q [] imagesMap log = (Inr imagesMap, log)"
| "generationLoop e ps s count q (pid # pids) imagesMap log =
     (case selectedIdeaOf s pid of
        None \<Rightarrow> generationLoop e ps s count q pids imagesMap log
      | Some iid \<Rightarrow>
          (case map_of (generatedIdeas s) pid of
             None \<Rightarrow> (Inl TypeError, log)
           | Some ideas \<Rightarrow>
               (case generateUGCImages e (findPersona ps pid) (find (\<lambda>i. i_id i = iid) ideas)
                       (case map_of (refinementData s) iid of None \<Rightarrow> [] | Some reqs \<Rightarrow> reqs)
                       count q log of
                  (Inl err, log') \<Rightarrow> (Inl err, log')
                | (Inr images, log') \<Rightarrow>
                    generationLoop e ps s count q pids (AList.update iid images imagesMap) log')))"

text \<open>The step is set to \<open>generation\<close> before the loop starts, and stays there when the
  loop throws.\<close>

definition proceedToGeneration :: "env \<Rightarrow> app \<Rightarrow> app" where
  "proceedToGeneration e a =
     (let a1 = a \<lparr> loading := True, loadingMsg := ''Generating high-fidelity visuals...'' \<rparr>
      in case generationLoop e (personas a) (wstate a) (genCount a) (genQuality a)
                (selectedPersonaIds (wstate a)) [] (requests a) of
           (Inl err, log') \<Rightarrow>
             a1 \<lparr> wstate := (wstate a) \<lparr> step := Generation \<rparr>,
                  errorMsg := Some ''Image Generation Failed.'',
                  loading := False, requests := log' \<rparr>
         | (Inr imagesMap, log') \<Rightarrow>
             a1 \<lparr> wstate := (wstate a) \<lparr> generatedImages := imagesMap, step := Editing \<rparr>,
                  loading := False, requests := log' \<rparr>)"

definition handleEditImage :: "env \<Rightarrow> string \<Rightarrow> string \<Rightarrow> app \<Rightarrow> app" where
  "handleEditImage e iid imageId a =
     (case map_of (editInputs a) imageId of
        None \<Rightarrow> a
      | Some input \<Rightarrow>
          if input = [] then a
          else (let a1 = a \<lparr> loading := True, loadingMsg := ''Refining visual...'' \<rparr>
                in case map_of (generatedImages (wstate a)) iid of
                     None \<Rightarrow> a1 \<lparr> errorMsg := Some ''Editing failed.'', loading := False \<rparr>
                   | Some images \<Rightarrow>
                       (case editImageWithChat e (find (\<lambda>img. g_id img = imageId) images)
                               input None (requests a) of
                          (Inl err, log') \<Rightarrow>
                            a1 \<lparr> errorMsg := Some ''Editing failed.'', loading := False,
                                 requests := log' \<rparr>
                        | (Inr newImage, log') \<Rightarrow>
                            a1 \<lparr> wstate := (wstate a)
                                    \<lparr> generatedImages :=
                                        AList.update iid
                                          (map (\<lambda>img. if g_id img = imageId then newImage else img)
                                               images)
                                          (generatedImages (wstate a)) \<rparr>,
                                 editInputs := AList.update imageId [] (editInputs a),
                                 loading := False, requests := log' \<rparr>)))"

subsection \<open>Captions\<close>

fun captionsLoop ::
  "env \<Rightarrow> Persona list \<Rightarrow> WorkflowState \<Rightarrow> string list \<Rightarrow> jsval dict \<Rightarrow> request list
     \<Rightarrow> (exn + jsval dict) \<times> request list" where
  "captionsLoop e ps s [] captionsMap log = (Inr captionsMap, log)"
| "captionsLoop e ps s (pid # pids) captionsMap log =
     (case map_of (generatedIdeas s) pid of
        None \<Rightarrow> (Inl TypeError, log)
      | Some ideas \<Rightarrow>
          (case map_of (selectedIdeaIds s) pid of
             None \<Rightarrow> (Inl TypeError, log)
           | Some iid \<Rightarrow>
               (case generateCaptionStrategy e (findPersona ps pid)
                       (find (\<lambda>i. i_id i = iid) ideas) log of
                  (Inl err, log') \<Rightarrow> (Inl err, log')
                | (Inr c, log') \<Rightarrow>
                    captionsLoop e ps s pids (AList.update iid c captionsMap) log')))"

definition proceedToCaptions :: "env \<Rightarrow> app \<Rightarrow> app" where
  "proceedToCaptions e a =
     (let a1 = a \<lparr> loading := True, loadingMsg := ''Writing copy & strategy...'' \<rparr>
      in case captionsLoop e (personas a) (wstate a) (selectedPersonaIds (wstate a)) []
                (requests a) of
           (Inl err, log') \<Rightarrow>
             a1 \<lparr> wstate := (wstate a) \<lparr> step := Captions \<rparr>,
                  errorMsg := Some ''Caption generation failed.'',
                  loading := False, requests := log' \<rparr>
         | (Inr captionsMap, log') \<Rightarrow>
             a1 \<lparr> wstate := (wstate a) \<lparr> captions := captionsMap, step := Captions \<rparr>,
                  loading := False, requests := log' \<rparr>)"

subsection \<open>The runs of the application\<close>

text \<open>
  The states the application reaches: it starts with the initial workflow state, and each
  view offers its controls. The dashboard (step \<open>dashboard\<close>) has the persona editor,
  whose effect on the list of personas is left open, its Auto-Fill, which calls the
  capability, the delete button of each card, and Start Creating when there are personas;
  the selection view has the way back, the persona cards and Continue; the ideation view
  has the two modes while none is set, the brief and Generate Variants in manual mode
  while nothing is generated, and Regenerate, the idea cards and Next Step once ideas are
  there; the refinement view has the inputs of each requirement, the production settings
  and Start Generation; the editor has the edit inputs and Generate Captions. The world
  \<open>e\<close> of an operation that calls the capability is any. A handler is taken to run to
  its end before the next control is used.
\<close>

inductive run :: "app \<Rightarrow> bool" where
  fresh: "wstate a = initialState \<Longrightarrow> run a"
| editPersonas:
    "run a \<Longrightarrow> step (wstate a) = Dashboard \<Longrightarrow> run (a \<lparr> personas := ps \<rparr>)"
| enhance:
    "run a \<Longrightarrow> step (wstate a) = Dashboard \<Longrightarrow>
     run (a \<lparr> requests := snd (enhancePersonaProfile e profile (requests a)) \<rparr>)"
| deletePersona:
    "run a \<Longrightarrow> step (wstate a) = Dashboard \<Longrightarrow> p \<in> set (personas a) \<Longrightarrow>
     run (handleDeletePersona confirmed (p_id p) a)"
| startCreating:
    "run a \<Longrightarrow> step (wstate a) = Dashboard \<Longrightarrow> personas a \<noteq> [] \<Longrightarrow>
     run (handleStartCreating a)"
| toDashboard:
    "run a \<Longrightarrow> step (wstate a) = Selection \<Longrightarrow> run (backToDashboard a)"
| toggle:
    "run a \<Longrightarrow> step (wstate a) = Selection \<Longrightarrow> p \<in> set (personas a) \<Longrightarrow>
     run (togglePersonaSelection (p_id p) a)"
| toIdeation:
    "run a \<Longrightarrow> step (wstate a) = Selection \<Longrightarrow> run (proceedToIdeation a)"
| manual:
    "run a \<Longrightarrow> step (wstate a) = Ideation \<Longrightarrow> mode (wstate a) = None \<Longrightarrow>
     run (chooseManual a)"
| auto:
    "run a \<Longrightarrow> step (wstate a) = Ideation \<Longrightarrow> mode (wstate a) = None \<Longrightarrow>
     run (generateIdeas e Auto a)"
| toModes:
    "run a \<Longrightarrow> step (wstate a) = Ideation \<Longrightarrow> mode (wstate a) = Some Manual \<Longrightarrow>
     objectKeys (generatedIdeas (wstate a)) = [] \<Longrightarrow> run (backToModes a)"
| brief:
    "run a \<Longrightarrow> step (wstate a) = Ideation \<Longrightarrow> mode (wstate a) = Some Manual \<Longrightarrow>
     objectKeys (generatedIdeas (wstate a)) = [] \<Longrightarrow> run (setManualActivityInput t a)"
| variants:
    "run a \<Longrightarrow> step (wstate a) = Ideation \<Longrightarrow> mode (wstate a) = Some Manual \<Longrightarrow>
     objectKeys (generatedIdeas (wstate a)) = [] \<Longrightarrow> run (generateIdeas e Manual a)"
| regenerate:
    "run a \<Longrightarrow> step (wstate a) = Ideation \<Longrightarrow>
     objectKeys (generatedIdeas (wstate a)) \<noteq> [] \<Longrightarrow>
     pid \<in> set (selectedPersonaIds (wstate a)) \<Longrightarrow> run (regenerateIdea e pid a)"
| pick:
    "run a \<Longrightarrow> step (wstate a) = Ideation \<Longrightarrow>
     objectKeys (generatedIdeas (wstate a)) \<noteq> [] \<Longrightarrow>
     pid \<in> set (selectedPersonaIds (wstate a)) \<Longrightarrow>
     map_of (generatedIdeas (wstate a)) pid = Some ideas \<Longrightarrow> idea \<in> set ideas \<Longrightarrow>
     run (selectIdea pid (i_id idea) a)"
| nextStep:
    "run a \<Longrightarrow> run (clickNextStep e a)"
| answer:
    "run a \<Longrightarrow> step (wstate a) = Refinement \<Longrightarrow>
     run (handleRefinementInput iid reqId (JStr t) a)"
| autoFill:
    "run a \<Longrightarrow> step (wstate a) = Refinement \<Longrightarrow> run (useSuggestion iid reqId a)"
| attach:
    "run a \<Longrightarrow> step (wstate a) = Refinement \<Longrightarrow>
     run (handleRefinementImage iid reqId base64Full a)"
| settings:
    "run a \<Longrightarrow> step (wstate a) = Refinement \<Longrightarrow>
     run (a \<lparr> genCount := n, genQuality := q \<rparr>)"
| toGeneration:
    "run a \<Longrightarrow> step (wstate a) = Refinement \<Longrightarrow> run (proceedToGeneration e a)"
| typeEdit:
    "run a \<Longrightarrow> step (wstate a) = Editing \<Longrightarrow>
     run (a \<lparr> editInputs := AList.update imageId t (editInputs a) \<rparr>)"
| editImage:
    "run a \<Longrightarrow> step (wstate a) = Editing \<Longrightarrow>
     run (handleEditImage e iid imageId a)"
| toCaptions:
    "run a \<Longrightarrow> step (wstate a) = Editing \<Longrightarrow> run (proceedToCaptions e a)"

section \<open>Storage mapping (lib/supabase.ts)\<close>

text \<open>Both helpers take \<open>any\<close>: a property that is absent reads as \<open>undefined\<close>.\<close>

record personaObject =
  o_id :: jsval
  o_name :: jsval
  o_location :: jsval
  o_country :: jsval
  o_niche :: jsval
  o_bio :: jsval
  o_avatarUrl :: jsval
  o_refImages :: jsval

record personaRow =
  row_id :: jsval
  row_name :: jsval
  row_location :: jsval
  row_country :: jsval
  row_niche :: jsval
  row_bio :: jsval
  row_avatar_url :: jsval
  row_ref_images :: jsval

definition mapPersonaFromDb :: "personaRow \<Rightarrow> personaObject" where
  "mapPersonaFromDb row =
     \<lparr> o_id = row_id row,
       o_name = row_name row,
       o_location = row_location row,
       o_country = row_country row,
       o_niche = orElse (row_niche row) (JArr []),
       o_bio = row_bio row,
       o_avatarUrl = row_avatar_url row,
       o_refImages = orElse (row_ref_images row) (JArr []) \<rparr>"

definition mapPersonaToDb :: "personaObject \<Rightarrow> personaRow" where
  "mapPersonaToDb persona =
     \<lparr> row_id = o_id persona,
       row_name = o_name persona,
       row_location = o_location persona,
       row_country = o_country persona,
       row_niche = orElse (o_niche persona) (JArr []),
       row_bio = o_bio persona,
       row_avatar_url = orElse (o_avatarUrl persona) JNull,
       row_ref_images = orElse (o_refImages persona) (JArr []) \<rparr>"

text \<open>A \<open>Persona\<close> of types.ts as the object the helpers see.\<close>

definition strings :: "string list \<Rightarrow> jsval" where
  "strings xs = JArr (map JStr xs)"

definition objectOf :: "Persona \<Rightarrow> personaObject" where
  "objectOf p =
     \<lparr> o_id = JStr (p_id p), o_name = JStr (p_name p), o_location = JStr (location p),
       o_country = JStr (country p), o_niche = strings (niche p), o_bio = JStr (bio p),
       o_avatarUrl = JStr (avatarUrl p), o_refImages = strings (refImages p) \<rparr>"

text \<open>A persona as \<open>handleCreatePersona\<close> and \<open>handleSavePersona\<close> make it when only a
  name is entered: the avatar is the empty string.\<close>

definition newPersona :: Persona where
  "newPersona =
     \<lparr> p_id = ''p-1764613417000'', p_name = ''Ana'', location = [], country = [],
       niche = [], bio = [], avatarUrl = [], refImages = [] \<rparr>"


section \<open>Properties of requests\<close>

text \<open>A request is exclusive when it does not both declare a response schema and enable
  the search tool.\<close>

definition exclusive :: "request \<Rightarrow> bool" where
  "exclusive r =
     (\<not> (responseSchema (config r) \<noteq> None \<and> GoogleSearch \<in> set (tools (config r))))"

text \<open>\<open>grows log log'\<close>: \<open>log'\<close> is \<open>log\<close> followed by requests that are all exclusive.\<close>

definition grows :: "request list \<Rightarrow> request list \<Rightarrow> bool" where
  "grows log log' = (\<exists>new. log' = log @ new \<and> list_all exclusive new)"

section \<open>Properties of the workflow state\<close>

text \<open>The ids of generated ideas carry the persona, a tag for the mode, the clock and
  the index: \<open>wellKeyed m pid ideas\<close> says so for every entry of a list.\<close>

definition ideaTag :: "mode \<Rightarrow> string" where
  "ideaTag m = (case m of Manual \<Rightarrow> ''-idea-'' | Auto \<Rightarrow> ''-trend-'')"

definition wellKeyed :: "mode \<Rightarrow> string \<Rightarrow> GeneratedIdea list \<Rightarrow> bool" where
  "wellKeyed m pid ideas =
     (\<forall>j<length ideas. personaId (ideas ! j) = pid \<and>
        (\<exists>ts. i_id (ideas ! j) = pid @ ideaTag m @ showNat ts @ ''-'' @ showNat j))"



text \<open>
  The sentence of the spec about search-augmented responses, for comparison with
  \<open>jsonMatch\<close>: the first array that is complete by bracket matching, that is, from the
  first \<open>[\<close> up to the \<open>]\<close> that closes it.
\<close>

fun closeBracket :: "nat \<Rightarrow> string \<Rightarrow> string \<Rightarrow> string option" where
  "closeBracket d acc [] = None"
| "closeBracket d acc (c # cs) =
     (if c = CHR ''['' then closeBracket (Suc d) (acc @ [c]) cs
      else if c = CHR '']''
      then (if d = 0 then Some (acc @ [c]) else closeBracket (d - 1) (acc @ [c]) cs)
      else closeBracket d (acc @ [c]) cs)"

definition firstCompleteArray :: "string \<Rightarrow> string option" where
  "firstCompleteArray t =
     (let r = dropWhile (\<lambda>c. c \<noteq> CHR ''['') t
      in if r = [] then None else closeBracket 0 [CHR ''[''] (tl r))"

text \<open>
  The no-orphan invariant in the words of the spec. An idea id is reachable when it is the
  selected idea of a selected persona and is among the ideas generated for that persona.
  The invariant has two parts. The keys: those of \<open>selectedIdeaIds\<close> are to be selected
  personas, those of \<open>refinementData\<close>, \<open>generatedImages\<close> and \<open>captions\<close> reachable idea
  ids. The entries of \<open>selectedIdeaIds\<close>: the idea that an entry names is to be among the
  ideas that the current state holds for the persona of its key.
\<close>

definition reachableIdea :: "WorkflowState \<Rightarrow> string \<Rightarrow> bool" where
  "reachableIdea s iid =
     (\<exists>pid\<in>set (selectedPersonaIds s). map_of (selectedIdeaIds s) pid = Some iid \<and>
        (\<exists>ideas. map_of (generatedIdeas s) pid = Some ideas \<and> iid \<in> i_id ` set ideas))"

definition keysReachable :: "WorkflowState \<Rightarrow> bool" where
  "keysReachable s =
     (fst ` set (selectedIdeaIds s) \<subseteq> set (selectedPersonaIds s) \<and>
      (\<forall>k\<in>fst ` set (refinementData s). reachableIdea s k) \<and>
      (\<forall>k\<in>fst ` set (generatedImages s). reachableIdea s k) \<and>
      (\<forall>k\<in>fst ` set (captions s). reachableIdea s k))"

definition selectionsLive :: "WorkflowState \<Rightarrow> bool" where
  "selectionsLive s =
     list_all (\<lambda>(pid, iid). case map_of (generatedIdeas s) pid of
                               None \<Rightarrow> False
                             | Some ideas \<Rightarrow> iid \<in> i_id ` set ideas)
       (selectedIdeaIds s)"

definition noOrphans :: "WorkflowState \<Rightarrow> bool" where
  "noOrphans s = (keysReachable s \<and> selectionsLive s)"

text \<open>The step is past ideation.\<close>

definition pastIdeation :: "step \<Rightarrow> bool" where
  "pastIdeation st =
     (st = Refinement \<or> st = Generation \<or> st = Editing \<or> st = Captions \<or> st = Complete)"

text \<open>What holds along every run: the selected ids are distinct; nothing is selected or
  stored under an idea before its step; past ideation every selected persona has a
  selected idea; the keys of the stage maps are reachable.\<close>

definition runInv :: "WorkflowState \<Rightarrow> bool" where
  "runInv s =
     (distinct (selectedPersonaIds s) \<and>
      ((step s = Dashboard \<or> step s = Selection) \<longrightarrow> selectedIdeaIds s = []) \<and>
      (\<not> pastIdeation (step s) \<longrightarrow>
         refinementData s = [] \<and> generatedImages s = [] \<and> captions s = []) \<and>
      (pastIdeation (step s) \<longrightarrow>
         set (selectedPersonaIds s) \<subseteq> fst ` set (selectedIdeaIds s)) \<and>
      keysReachable s)"

section \<open>Scenarios\<close>

text \<open>The two seed personas of the application, and a third one.\<close>

definition jakob :: Persona where
  "jakob =
     \<lparr> p_id = ''p1'', p_name = ''Jakob'', location = ''Zagreb'', country = ''Croatia'',
       niche = [''Fitness'', ''Lifestyle''],
       bio = ''Energetic urban runner, loves coffee and sunrises.'',
       avatarUrl = ''https://images.unsplash.com/photo-1500648767791-00dcc994a43e?w=400&h=400&fit=crop'',
       refImages = [] \<rparr>"

definition sofia :: Persona where
  "sofia =
     \<lparr> p_id = ''p2'', p_name = ''Sofia'', location = ''Dubrovnik'', country = ''Croatia'',
       niche = [''Travel'', ''Fashion''],
       bio = ''Elegant explorer, loves old architecture and sea views.'',
       avatarUrl = ''https://images.unsplash.com/photo-1494790108377-be9c29b29330?w=400&h=400&fit=crop'',
       refImages = [] \<rparr>"


definition appOf :: "Persona list \<Rightarrow> WorkflowState \<Rightarrow> app" where
  "appOf ps s =
     \<lparr> personas = ps, wstate = s, loading = False, loadingMsg = [], errorMsg = None,
       genCount = 2, genQuality = Q2K, editInputs = [], requests = [] \<rparr>"

text \<open>A world in which the \<open>n\<close>-th call answers \<open>rs ! n\<close> and every later call throws;
  the clock stands at 123.\<close>

definition worldOf :: "response option list \<Rightarrow> env" where
  "worldOf rs =
     \<lparr> respond = (\<lambda>n. if n < length rs then rs ! n else None),
       now = (\<lambda>n j. 123),
       fetchBase64 = (\<lambda>u. None),
       template = (\<lambda>p. ''prompt'') \<rparr>"

definition textResponse :: "string \<Rightarrow> response" where
  "textResponse t = \<lparr> respText = Some t, respParts = [TextPart t] \<rparr>"


text \<open>One persona selected, in the ideation step, manual mode, nothing generated yet.\<close>

definition ideationState :: WorkflowState where
  "ideationState =
     initialState \<lparr> step := Ideation, selectedPersonaIds := [''p1''], mode := Some Manual,
                    manualActivityInput := ''drinking coffee'' \<rparr>"


text \<open>An idea as manual generation makes it for a persona at clock 123.\<close>

definition ideaFor :: "string \<Rightarrow> GeneratedIdea" where
  "ideaFor pid = \<lparr> i_id = pid @ ''-idea-123-0'', personaId = pid, title = JStr ''Coffee'',
      description = JStr ''Morning coffee at the market'', selected = False \<rparr>"

text \<open>Ideas are generated for the one selected persona; none is selected yet.\<close>

definition unselectedApp :: app where
  "unselectedApp =
     appOf [jakob] (ideationState \<lparr> generatedIdeas := [(''p1'', [ideaFor ''p1''])] \<rparr>)"



text \<open>A response cut off in the middle of the JSON text.\<close>

definition truncatedWorld :: env where
  "truncatedWorld = worldOf [Some (textResponse ''[{\"title\": \"Espresso at Cogito\"'')]"

text \<open>Responses that a search-augmented call may give: the array between two sentences;
  no array; the array, then a citation in brackets.\<close>

definition mixedText :: string where
  "mixedText = ''Ideas: [{\"title\":\"A\"}] Enjoy!''"

definition proseText :: string where
  "proseText = ''No ideas today.''"

definition citedText :: string where
  "citedText = ''[{\"title\":\"A\",\"description\":\"B\"}] Sources: [1]''"

text \<open>A run up to the refinement step: Start Creating, the card of \<open>p1\<close>, Continue, the
  manual mode, Generate Variants (one variant comes back), the card of the idea, Next Step
  (no requirement comes back).\<close>

definition demoWorld :: env where
  "demoWorld =
     worldOf [Some (textResponse ''[{\"title\":\"Coffee\",\"description\":\"Morning coffee at the market\"}]''),
              Some (textResponse ''[]'')]"

definition demoIdeation :: app where
  "demoIdeation =
     generateIdeas demoWorld Manual
       (chooseManual (proceedToIdeation (togglePersonaSelection ''p1''
          (handleStartCreating (appOf [jakob] initialState)))))"

definition demoApp :: app where
  "demoApp = clickNextStep demoWorld (selectIdea ''p1'' ''p1-idea-123-0'' demoIdeation)"







section \<open>Properties\<close>

subsection \<open>Requests issued\<close>

lemma grows_refl: "grows log log"
  by (simp add: grows_def)

lemma grows_trans: "grows l1 l2 \<Longrightarrow> grows l2 l3 \<Longrightarrow> grows l1 l3"
  by (auto simp: grows_def)

lemma grows_one: "exclusive req \<Longrightarrow> grows log (log @ [req])"
  by (simp add: grows_def)

lemma exclusive_requests:
  "exclusive (manualRequest e p activity feedback)"
  "exclusive (trendRequest e p)"
  "exclusive (requirementsRequest e idea p)"
  "exclusive (imageRequest e p idea reqs q)"
  "exclusive (editRequest e d instruction reference)"
  "exclusive (captionRequest e p idea)"
  "exclusive (enhanceRequest e p)"
  by (simp_all add: exclusive_def manualRequest_def trendRequest_def requirementsRequest_def
        imageRequest_def editRequest_def captionRequest_def enhanceRequest_def noConfig_def)

lemma manual_grows: "grows log (snd (generateManualVariants e persona activity feedback log))"
  by (auto simp: generateManualVariants_def generateContent_def grows_refl grows_one
        exclusive_requests split: option.splits)

lemma trends_grows: "grows log (snd (generateAutoTrends e persona log))"
  by (auto simp: generateAutoTrends_def generateContent_def grows_refl grows_one
        exclusive_requests split: option.splits)

lemma analyze_grows: "grows log (snd (analyzeIdeaRequirements e idea persona log))"
  by (auto simp: analyzeIdeaRequirements_def generateContent_def grows_refl grows_one
        exclusive_requests split: option.splits)

lemma caption_grows: "grows log (snd (generateCaptionStrategy e persona idea log))"
  by (auto simp: generateCaptionStrategy_def generateContent_def grows_refl grows_one
        exclusive_requests split: option.splits)

lemma enhance_grows: "grows log (snd (enhancePersonaProfile e profile log))"
  by (auto simp: enhancePersonaProfile_def generateContent_def grows_refl grows_one
        exclusive_requests split: option.splits)

lemma edit_grows: "grows log (snd (editImageWithChat e img instruction reference log))"
  by (auto simp: editImageWithChat_def generateContent_def grows_refl grows_one
        exclusive_requests split: option.splits list.splits)

lemma imageLoop_grows:
  "exclusive req \<Longrightarrow> grows log (snd (imageLoop e req iid fp i k results log))"
proof (induction k arbitrary: i results log)
  case 0
  then show ?case by (simp add: grows_refl)
next
  case (Suc k)
  have step: "grows log (log @ [req])" using Suc.prems by (rule grows_one)
  show ?case
    by (cases "respond e (length log)")
       (auto simp: generateContent_def intro: grows_trans[OF step] Suc.IH[OF Suc.prems])
qed

lemma images_grows: "grows log (snd (generateUGCImages e persona idea reqs count q log))"
  using imageLoop_grows[OF exclusive_requests(4)]
  by (auto simp: generateUGCImages_def grows_refl split: option.splits prod.splits)
     (metis snd_conv)

lemma ideasLoop_grows: "grows log (snd (ideasLoop e ps m activity pids ideasMap log))"
proof (induction pids arbitrary: ideasMap log)
  case Nil
  then show ?case by (simp add: grows_refl)
next
  case (Cons pid pids)
  define call where "call =
    (case m of
       Manual \<Rightarrow> generateManualVariants e (findPersona ps pid) activity None log
     | Auto \<Rightarrow> generateAutoTrends e (findPersona ps pid) log)"
  obtain r log1 where c: "call = (r, log1)" by (cases call)
  have g: "grows log log1"
    using manual_grows[of log e "findPersona ps pid" activity None]
      trends_grows[of log e "findPersona ps pid"] c
    by (cases m) (simp_all add: call_def)
  show ?case
  proof (cases r)
    case (Inl err)
    with c g show ?thesis by (simp add: call_def[symmetric])
  next
    case (Inr ideas)
    with c have "snd (ideasLoop e ps m activity (pid # pids) ideasMap log) =
        snd (ideasLoop e ps m activity pids (AList.update pid ideas ideasMap) log1)"
      by (simp add: call_def[symmetric])
    with grows_trans[OF g Cons.IH] show ?thesis by simp
  qed
qed

lemma refinementLoop_grows: "grows log (snd (refinementLoop e ps s pids refinementMap log))"
proof (induction pids arbitrary: refinementMap log)
  case Nil
  then show ?case by (simp add: grows_refl)
next
  case (Cons pid pids)
  show ?case
  proof (cases "selectedIdeaOf s pid")
    case None
    then show ?thesis using Cons.IH by simp
  next
    case (Some iid)
    note sel = this
    show ?thesis
    proof (cases "map_of (generatedIdeas s) pid")
      case None
      with sel show ?thesis by (simp add: grows_refl)
    next
      case (Some ideas)
      note gi = this
      show ?thesis
      proof (cases "find (\<lambda>i. i_id i = iid) ideas")
        case None
        with sel gi show ?thesis using Cons.IH by simp
      next
        case (Some idea)
        obtain r log1 where c:
          "analyzeIdeaRequirements e idea (findPersona ps pid) log = (r, log1)"
          by (cases "analyzeIdeaRequirements e idea (findPersona ps pid) log")
        have g: "grows log log1"
          using analyze_grows[of log e idea "findPersona ps pid"] c by simp
        show ?thesis
        proof (cases r)
          case (Inl err)
          with sel gi Some c g show ?thesis by simp
        next
          case (Inr reqs)
          with sel gi Some c grows_trans[OF g Cons.IH] show ?thesis by simp
        qed
      qed
    qed
  qed
qed

lemma generationLoop_grows: "grows log (snd (generationLoop e ps s count q pids imagesMap log))"
proof (induction pids arbitrary: imagesMap log)
  case Nil
  then show ?case by (simp add: grows_refl)
next
  case (Cons pid pids)
  show ?case
  proof (cases "selectedIdeaOf s pid")
    case None
    then show ?thesis using Cons.IH by simp
  next
    case (Some iid)
    note sel = this
    show ?thesis
    proof (cases "map_of (generatedIdeas s) pid")
      case None
      with sel show ?thesis by (simp add: grows_refl)
    next
      case (Some ideas)
      define reqs where
        "reqs = (case map_of (refinementData s) iid of None \<Rightarrow> [] | Some reqs \<Rightarrow> reqs)"
      obtain r log1 where c:
        "generateUGCImages e (findPersona ps pid) (find (\<lambda>i. i_id i = iid) ideas) reqs count q log
           = (r, log1)"
        by (cases "generateUGCImages e (findPersona ps pid) (find (\<lambda>i. i_id i = iid) ideas)
                     reqs count q log")
      have g: "grows log log1"
        using images_grows[of log e "findPersona ps pid" "find (\<lambda>i. i_id i = iid) ideas"
            reqs count q] c by simp
      show ?thesis
      proof (cases r)
        case (Inl err)
        with sel Some c g show ?thesis by (simp add: reqs_def[symmetric])
      next
        case (Inr images)
        with sel Some c grows_trans[OF g Cons.IH] show ?thesis
          by (simp add: reqs_def[symmetric])
      qed
    qed
  qed
qed

lemma captionsLoop_grows: "grows log (snd (captionsLoop e ps s pids captionsMap log))"
proof (induction pids arbitrary: captionsMap log)
  case Nil
  then show ?case by (simp add: grows_refl)
next
  case (Cons pid pids)
  show ?case
  proof (cases "map_of (generatedIdeas s) pid")
    case None
    then show ?thesis by (simp add: grows_refl)
  next
    case (Some ideas)
    note gi = this
    show ?thesis
    proof (cases "map_of (selectedIdeaIds s) pid")
      case None
      with gi show ?thesis by (simp add: grows_refl)
    next
      case (Some iid)
      obtain r log1 where c:
        "generateCaptionStrategy e (findPersona ps pid) (find (\<lambda>i. i_id i = iid) ideas) log
           = (r, log1)"
        by (cases "generateCaptionStrategy e (findPersona ps pid)
                     (find (\<lambda>i. i_id i = iid) ideas) log")
      have g: "grows log log1"
        using caption_grows[of log e "findPersona ps pid" "find (\<lambda>i. i_id i = iid) ideas"] c
        by simp
      show ?thesis
      proof (cases r)
        case (Inl err)
        with gi Some c g show ?thesis by simp
      next
        case (Inr cap)
        with gi Some c grows_trans[OF g Cons.IH] show ?thesis by simp
      qed
    qed
  qed
qed

text \<open>
  C10. No capability call declares a response schema and enables the search tool in the
  same request: whatever a stage operation or the persona enhancement adds to the list of
  requests is exclusive.
\<close>

theorem schema_and_search_exclusive:
  "grows (requests a) (requests (generateIdeas e m a)) \<and>
   grows (requests a) (requests (regenerateIdea e pid a)) \<and>
   grows (requests a) (requests (proceedToRefinement e a)) \<and>
   grows (requests a) (requests (proceedToGeneration e a)) \<and>
   grows (requests a) (requests (handleEditImage e iid imageId a)) \<and>
   grows (requests a) (requests (proceedToCaptions e a)) \<and>
   grows log (snd (enhancePersonaProfile e profile log))"
proof (intro conjI)
  show "grows (requests a) (requests (generateIdeas e m a))"
    using ideasLoop_grows[of "requests a" e "personas a" m "manualActivityInput (wstate a)"
        "selectedPersonaIds (wstate a)" "[]"]
    by (auto simp: generateIdeas_def Let_def split: prod.splits sum.splits)
  show "grows (requests a) (requests (regenerateIdea e pid a))"
    using manual_grows[of "requests a" e "findPersona (personas a) pid"
        "manualActivityInput (wstate a)" "Some ''Try different angles or locations.''"]
      trends_grows[of "requests a" e "findPersona (personas a) pid"]
    by (auto simp: regenerateIdea_def split: prod.splits sum.splits if_splits)
  show "grows (requests a) (requests (proceedToRefinement e a))"
    using refinementLoop_grows[of "requests a" e "personas a" "wstate a"
        "selectedPersonaIds (wstate a)" "[]"]
    by (auto simp: proceedToRefinement_def Let_def split: prod.splits sum.splits)
  show "grows (requests a) (requests (proceedToGeneration e a))"
    using generationLoop_grows[of "requests a" e "personas a" "wstate a" "genCount a"
        "genQuality a" "selectedPersonaIds (wstate a)" "[]"]
    by (auto simp: proceedToGeneration_def Let_def split: prod.splits sum.splits)
  show "grows (requests a) (requests (handleEditImage e iid imageId a))"
    apply (auto simp: handleEditImage_def Let_def grows_refl
                split: prod.splits sum.splits option.splits)
    subgoal for input images err log'
      using edit_grows[of "requests a" e "find (\<lambda>img. g_id img = imageId) images" input None]
      by simp
    subgoal for input images img log'
      using edit_grows[of "requests a" e "find (\<lambda>img. g_id img = imageId) images" input None]
      by simp
    done
  show "grows (requests a) (requests (proceedToCaptions e a))"
    using captionsLoop_grows[of "requests a" e "personas a" "wstate a"
        "selectedPersonaIds (wstate a)" "[]"]
    by (auto simp: proceedToCaptions_def Let_def split: prod.splits sum.splits)
  show "grows log (snd (enhancePersonaProfile e profile log))"
    by (rule enhance_grows)
qed

subsection \<open>Ideation is all or nothing\<close>

lemma manual_success:
  assumes "generateManualVariants e persona activity feedback log = (Inr ideas, log')"
  shows "length log' = Suc (length log) \<and> respond e (length log) \<noteq> None"
  using assms
  by (auto simp: generateManualVariants_def generateContent_def
           split: option.splits prod.splits)

lemma trends_success:
  assumes "generateAutoTrends e persona log = (Inr ideas, log')"
  shows "length log' = Suc (length log) \<and> respond e (length log) \<noteq> None"
  using assms
  by (auto simp: generateAutoTrends_def generateContent_def
           split: option.splits prod.splits)

lemma ideasLoop_fails:
  "k < length pids \<Longrightarrow> respond e (length log + k) = None \<Longrightarrow>
     \<exists>err log'. ideasLoop e ps m activity pids ideasMap log = (Inl err, log')"
proof (induction pids arbitrary: k ideasMap log)
  case Nil
  then show ?case by simp
next
  case (Cons pid pids)
  obtain r log1 where call:
    "(case m of
        Manual \<Rightarrow> generateManualVariants e (findPersona ps pid) activity None log
      | Auto \<Rightarrow> generateAutoTrends e (findPersona ps pid) log) = (r, log1)"
    by (cases "(case m of
        Manual \<Rightarrow> generateManualVariants e (findPersona ps pid) activity None log
      | Auto \<Rightarrow> generateAutoTrends e (findPersona ps pid) log)") 
  show ?case
  proof (cases r)
    case (Inl err)
    with call show ?thesis by simp
  next
    case (Inr ideas)
    with call have ok: "length log1 = Suc (length log) \<and> respond e (length log) \<noteq> None"
      by (cases m) (auto dest: manual_success trends_success)
    with Cons.prems obtain k' where k: "k = Suc k'"
      by (cases k) auto
    with Cons.prems ok have "k' < length pids" "respond e (length log1 + k') = None"
      by auto
    from Cons.IH[OF this] obtain err log' where
      "ideasLoop e ps m activity pids (AList.update pid ideas ideasMap) log1 = (Inl err, log')"
      by blast
    with call Inr show ?thesis by simp
  qed
qed

text \<open>
  C2. When one of the calls that \<open>generateIdeas\<close> would make for the selected personas
  throws (the \<open>k\<close>-th next call, with \<open>k\<close> below the number of selected personas), one
  error is reported, the workflow state (so \<open>generatedIdeas\<close> and \<open>step\<close>) is what it was.
\<close>

theorem generateIdeas_all_or_nothing:
  assumes "k < length (selectedPersonaIds (wstate a))"
    and "respond e (length (requests a) + k) = None"
  shows "wstate (generateIdeas e m a) = wstate a \<and>
         errorMsg (generateIdeas e m a) = Some ''Failed to generate ideas. Ensure API Key is set.''"
proof -
  from ideasLoop_fails[OF assms] obtain err log' where
    "ideasLoop e (personas a) m (manualActivityInput (wstate a))
       (selectedPersonaIds (wstate a)) [] (requests a) = (Inl err, log')"
    by blast
  then show ?thesis by (simp add: generateIdeas_def)
qed

text \<open>Two personas selected, the first call answers, the second throws.\<close>

theorem generateIdeas_all_or_nothing_witness:
  "(1::nat) < length (selectedPersonaIds (wstate (appOf [jakob, sofia]
       (ideationState \<lparr> selectedPersonaIds := [''p1'', ''p2''] \<rparr>)))) \<and>
   respond (worldOf [Some (textResponse ''[]'')])
     (length (requests (appOf [jakob, sofia]
       (ideationState \<lparr> selectedPersonaIds := [''p1'', ''p2''] \<rparr>))) + 1) = None \<and>
   wstate (generateIdeas (worldOf [Some (textResponse ''[]'')]) Manual
       (appOf [jakob, sofia] (ideationState \<lparr> selectedPersonaIds := [''p1'', ''p2''] \<rparr>)))
     = ideationState \<lparr> selectedPersonaIds := [''p1'', ''p2''] \<rparr> \<and>
   errorMsg (generateIdeas (worldOf [Some (textResponse ''[]'')]) Manual
       (appOf [jakob, sofia] (ideationState \<lparr> selectedPersonaIds := [''p1'', ''p2''] \<rparr>)))
     = Some ''Failed to generate ideas. Ensure API Key is set.''"
  using generateIdeas_all_or_nothing[of 1
      "appOf [jakob, sofia] (ideationState \<lparr> selectedPersonaIds := [''p1'', ''p2''] \<rparr>)"
      "worldOf [Some (textResponse ''[]'')]" Manual]
  by (simp add: appOf_def worldOf_def ideationState_def initialState_def)

subsection \<open>What ideation stores\<close>

lemma findPersona_id: "findPersona ps pid = Some p \<Longrightarrow> p_id p = pid"
  by (auto simp: findPersona_def find_Some_iff)

lemma mapThrow_Inr:
  "mapThrow f i xs = Inr ys \<Longrightarrow>
     length ys = length xs \<and> (\<forall>j<length xs. f (i + j) (xs ! j) = Inr (ys ! j))"
proof (induction xs arbitrary: i ys)
  case Nil
  then show ?case by simp
next
  case (Cons x xs)
  from Cons.prems obtain y ys' where fx: "f i x = Inr y"
    and rest: "mapThrow f (Suc i) xs = Inr ys'" and ys: "ys = y # ys'"
    by (auto split: sum.splits)
  from Cons.IH[OF rest] have len: "length ys' = length xs"
    and el: "\<forall>j<length xs. f (Suc i + j) (xs ! j) = Inr (ys' ! j)"
    by auto
  show ?case
  proof (intro conjI allI impI)
    show "length ys = length (x # xs)" using len ys by simp
  next
    fix j assume "j < length (x # xs)"
    then show "f (i + j) ((x # xs) ! j) = Inr (ys ! j)"
      using fx el ys by (cases j) auto
  qed
qed

lemma manual_wellKeyed:
  assumes "generateManualVariants e (findPersona ps pid) activity feedback log = (Inr ideas, log')"
  shows "wellKeyed Manual pid ideas"
proof -
  from assms obtain p resp xs where p: "findPersona ps pid = Some p"
    and m: "mapThrow (manualIdea e (length log) p) 0 xs = Inr ideas"
    by (auto simp: generateManualVariants_def generateContent_def arrayMap_def
             split: option.splits jsval.splits)
  from mapThrow_Inr[OF m] have
    el: "\<forall>j<length ideas. manualIdea e (length log) p j (xs ! j) = Inr (ideas ! j)"
    by simp
  have id: "p_id p = pid" using p by (rule findPersona_id)
  show ?thesis
    unfolding wellKeyed_def
  proof (intro allI impI)
    fix j assume "j < length ideas"
    with el have "manualIdea e (length log) p j (xs ! j) = Inr (ideas ! j)" by simp
    then have "ideas ! j = \<lparr> i_id = pid @ ''-idea-'' @ showNat (now e (length log) j) @ ''-'' @ showNat j,
                 personaId = pid,
                 title = getProp (xs ! j) ''title'',
                 description = getProp (xs ! j) ''description'',
                 selected = False \<rparr>"
      by (auto simp: manualIdea_def id split: if_splits)
    then show "personaId (ideas ! j) = pid \<and>
        (\<exists>ts. i_id (ideas ! j) = pid @ ideaTag Manual @ showNat ts @ ''-'' @ showNat j)"
      by (auto simp: ideaTag_def)
  qed
qed

lemma trends_wellKeyed:
  assumes "generateAutoTrends e (findPersona ps pid) log = (Inr ideas, log')"
  shows "wellKeyed Auto pid ideas"
proof -
  from assms obtain p resp xs where p: "findPersona ps pid = Some p"
    and m: "mapThrow (trendIdea e (length log) p) 0 xs = Inr ideas"
    by (auto simp: generateAutoTrends_def generateContent_def arrayMap_def
             split: option.splits jsval.splits)
  from mapThrow_Inr[OF m] have
    el: "\<forall>j<length ideas. trendIdea e (length log) p j (xs ! j) = Inr (ideas ! j)"
    by simp
  have id: "p_id p = pid" using p by (rule findPersona_id)
  show ?thesis
    unfolding wellKeyed_def
  proof (intro allI impI)
    fix j assume "j < length ideas"
    with el have "trendIdea e (length log) p j (xs ! j) = Inr (ideas ! j)" by simp
    then have "ideas ! j = \<lparr> i_id = pid @ ''-trend-'' @ showNat (now e (length log) j) @ ''-'' @ showNat j,
                 personaId = pid,
                 title = orElse (getProp (xs ! j) ''title'') (JStr ''Trending Idea''),
                 description = orElse (getProp (xs ! j) ''description'')
                                 (JStr ''Description unavailable''),
                 selected = False \<rparr>"
      by (auto simp: trendIdea_def id split: if_splits)
    then show "personaId (ideas ! j) = pid \<and>
        (\<exists>ts. i_id (ideas ! j) = pid @ ideaTag Auto @ showNat ts @ ''-'' @ showNat j)"
      by (auto simp: ideaTag_def)
  qed
qed

lemma ideasLoop_entries:
  assumes "ideasLoop e ps m activity pids ideasMap log = (Inr ideasMap', log')"
    and "\<forall>pid ideas. map_of ideasMap pid = Some ideas \<longrightarrow> wellKeyed m pid ideas"
  shows "(\<forall>pid ideas. map_of ideasMap' pid = Some ideas \<longrightarrow> wellKeyed m pid ideas) \<and>
         set pids \<union> dom (map_of ideasMap) \<subseteq> dom (map_of ideasMap')"
  using assms
proof (induction pids arbitrary: ideasMap log)
  case Nil
  then show ?case by simp
next
  case (Cons pid pids)
  define call where "call =
    (case m of
       Manual \<Rightarrow> generateManualVariants e (findPersona ps pid) activity None log
     | Auto \<Rightarrow> generateAutoTrends e (findPersona ps pid) log)"
  obtain r log1 where c: "call = (r, log1)" by (cases call)
  from Cons.prems(1) c obtain ideas where r: "r = Inr ideas"
    and rest: "ideasLoop e ps m activity pids (AList.update pid ideas ideasMap) log1 =
                 (Inr ideasMap', log')"
    by (cases r) (auto simp: call_def[symmetric])
  have wk: "wellKeyed m pid ideas"
    using c r manual_wellKeyed[of e ps pid activity None log ideas log1]
      trends_wellKeyed[of e ps pid log ideas log1]
    by (cases m) (simp_all add: call_def)
  have inv: "\<forall>q ideas'. map_of (AList.update pid ideas ideasMap) q = Some ideas' \<longrightarrow>
               wellKeyed m q ideas'"
    using Cons.prems(2) wk by (auto simp: update_conv')
  from Cons.IH[OF rest inv] have
    a: "\<forall>pid ideas. map_of ideasMap' pid = Some ideas \<longrightarrow> wellKeyed m pid ideas"
    and b: "set pids \<union> dom (map_of (AList.update pid ideas ideasMap)) \<subseteq> dom (map_of ideasMap')"
    by auto
  from b have "set (pid # pids) \<union> dom (map_of ideasMap) \<subseteq> dom (map_of ideasMap')"
    by (auto simp: update_conv')
  with a show ?case by simp
qed

text \<open>
  C7 (as amended). After a successful \<open>generateIdeas\<close>, every selected persona has an
  entry in \<open>generatedIdeas\<close>: a list, possibly empty, whose every entry has the persona's
  id as \<open>personaId\<close>, the entry at index \<open>j\<close> with the id
  \<open><persona id>-idea-<timestamp>-<j>\<close> in manual mode (\<open>-trend-\<close> in auto mode).
\<close>

theorem generateIdeas_entries:
  assumes "errorMsg (generateIdeas e m a) = None"
    and "pid \<in> set (selectedPersonaIds (wstate a))"
  shows "\<exists>ideas. map_of (generatedIdeas (wstate (generateIdeas e m a))) pid = Some ideas \<and>
           (\<forall>j<length ideas. personaId (ideas ! j) = pid \<and>
              (\<exists>ts. i_id (ideas ! j) = pid @ ideaTag m @ showNat ts @ ''-'' @ showNat j))"
proof -
  obtain r log' where l: "ideasLoop e (personas a) m (manualActivityInput (wstate a))
       (selectedPersonaIds (wstate a)) [] (requests a) = (r, log')"
    by (cases "ideasLoop e (personas a) m (manualActivityInput (wstate a))
       (selectedPersonaIds (wstate a)) [] (requests a)")
  with assms(1) obtain ideasMap where r: "r = Inr ideasMap"
    by (cases r) (auto simp: generateIdeas_def)
  from l r have g: "generatedIdeas (wstate (generateIdeas e m a)) = ideasMap"
    by (simp add: generateIdeas_def)
  from ideasLoop_entries[OF l[unfolded r]] have
    a: "\<forall>pid ideas. map_of ideasMap pid = Some ideas \<longrightarrow> wellKeyed m pid ideas"
    and b: "set (selectedPersonaIds (wstate a)) \<subseteq> dom (map_of ideasMap)"
    by auto
  from b assms(2) obtain ideas where i: "map_of ideasMap pid = Some ideas" by auto
  with a have "wellKeyed m pid ideas" by blast
  with i g show ?thesis by (auto simp: wellKeyed_def)
qed

text \<open>Manual mode for \<open>p1\<close> with one variant returned.\<close>

theorem generateIdeas_entries_witness:
  "map_of (generatedIdeas (wstate (generateIdeas
       (worldOf [Some (textResponse ''[{\"title\":\"Espresso at Cogito\",\"description\":\"Morning coffee\"}]'')])
       Manual (appOf [jakob] ideationState)))) ''p1'' =
     Some [\<lparr> i_id = ''p1-idea-123-0'', personaId = ''p1'', title = JStr ''Espresso at Cogito'',
              description = JStr ''Morning coffee'', selected = False \<rparr>]"
  using generateIdeas_entries[of
       "worldOf [Some (textResponse ''[{\"title\":\"Espresso at Cogito\",\"description\":\"Morning coffee\"}]'')]"
       Manual "appOf [jakob] ideationState" "''p1''"]
  by (simp add: generateIdeas_def generateManualVariants_def generateContent_def
        worldOf_def textResponse_def textOr_def
        JSON_parse_def lexStart_def isWhite_def isDigit_def arrayMap_def manualIdea_def nullish_def
        appOf_def ideationState_def initialState_def findPersona_def jakob_def
        showNat.simps digitChar_def)

text \<open>
  C7 as stated fails: when the capability returns the empty array, \<open>generateIdeas\<close>
  succeeds and stores the empty list for \<open>p1\<close>; when it returns four elements, four
  entries are stored, with the titles and descriptions the elements carry.
\<close>

theorem generateIdeas_nonempty_counterexample:
  "errorMsg (generateIdeas (worldOf [Some (textResponse ''[]'')]) Manual (appOf [jakob] ideationState)) = None \<and>
   map_of (generatedIdeas (wstate (generateIdeas (worldOf [Some (textResponse ''[]'')]) Manual
       (appOf [jakob] ideationState)))) ''p1'' = Some [] \<and>
   map_of (generatedIdeas (wstate (generateIdeas (worldOf [Some (textResponse ''[{\"title\":\"\"},{},{},{}]'')]) Manual
       (appOf [jakob] ideationState)))) ''p1'' =
     Some [\<lparr> i_id = ''p1-idea-123-0'', personaId = ''p1'', title = JStr [],
              description = JUndefined, selected = False \<rparr>,
           \<lparr> i_id = ''p1-idea-123-1'', personaId = ''p1'', title = JUndefined,
              description = JUndefined, selected = False \<rparr>,
           \<lparr> i_id = ''p1-idea-123-2'', personaId = ''p1'', title = JUndefined,
              description = JUndefined, selected = False \<rparr>,
           \<lparr> i_id = ''p1-idea-123-3'', personaId = ''p1'', title = JUndefined,
              description = JUndefined, selected = False \<rparr>]"
  by (simp add: generateIdeas_def generateManualVariants_def generateContent_def
        worldOf_def textResponse_def textOr_def
        JSON_parse_def lexStart_def isWhite_def isDigit_def arrayMap_def manualIdea_def nullish_def
        appOf_def ideationState_def initialState_def findPersona_def jakob_def
        showNat.simps digitChar_def)

subsection \<open>Numbers and escapes\<close>

text \<open>
  A number is falsy exactly when its double is zero, which the double of a lexeme with a
  non-zero digit can be (\<open>1e-400\<close>); an idea with such a title gets the fallback title.
  An escaped surrogate pair is the character it encodes.
\<close>

lemma number_truthiness:
  "truthy (JNum ''12'') \<and> truthy (JNum ''-2.50e-3'') \<and> truthy (JNum ''5e-324'') \<and>
   \<not> truthy (JNum ''0'') \<and> \<not> truthy (JNum ''-0.0'') \<and> \<not> truthy (JNum ''0e5'') \<and>
   \<not> truthy (JNum ''1e-400'') \<and>
   title (projr (trendIdea e n jakob 0 (JObj [(''title'', JNum ''1e-400'')]))) = JStr ''Trending Idea''"
  by (simp add: numNonzero_def isDigit_def digitsValue_def trendIdea_def nullish_def orElse_def)

lemma escaped_pair_is_character:
  "JSON_parse [CHR 0x22, CHR 0x5C, CHR ''u'', CHR ''D'', CHR ''8'', CHR ''3'', CHR ''D'',
               CHR 0x5C, CHR ''u'', CHR ''D'', CHR ''E'', CHR ''0'', CHR ''0'', CHR 0x22] =
   JSON_parse [CHR 0x22, CHR 0xF0, CHR 0x9F, CHR 0x98, CHR 0x80, CHR 0x22]"
  by (simp add: JSON_parse_def lexStart_def isWhite_def isDigit_def isHex_def unescape_def
        appendUnit_def pendingHigh_def encodeUnit_def encodePair_def hexValue_def hexDigit_def
        char_of_def bit_Suc_0_iff)

subsection \<open>Parsing the responses\<close>

text \<open>
  C5 at a failing input. The response text is cut off and does not parse. The three
  services that declared a schema and parse without \<open>try\<close> throw the \<open>SyntaxError\<close>, and
  \<open>generateIdeas\<close> reports its error; the two services that wrap \<open>JSON.parse\<close> in
  \<open>try ... catch\<close> fall back (the empty list, the profile that came in).
\<close>

theorem schema_parse_failure_throws:
  "fst (generateManualVariants truncatedWorld (Some jakob) ''drinking coffee'' None []) = Inl SyntaxError \<and>
   fst (analyzeIdeaRequirements truncatedWorld (ideaFor ''p1'') (Some jakob) []) = Inl SyntaxError \<and>
   fst (generateCaptionStrategy truncatedWorld (Some jakob) (Some (ideaFor ''p1'')) []) = Inl SyntaxError \<and>
   errorMsg (generateIdeas truncatedWorld Manual (appOf [jakob] ideationState)) =
     Some ''Failed to generate ideas. Ensure API Key is set.'' \<and>
   fst (generateAutoTrends truncatedWorld (Some jakob) []) = Inr [] \<and>
   fst (enhancePersonaProfile truncatedWorld jakob []) = Inr (Kept jakob)"
  by (simp add: generateManualVariants_def analyzeIdeaRequirements_def generateCaptionStrategy_def
        generateIdeas_def generateAutoTrends_def enhancePersonaProfile_def trendRaw_def jsonMatch_def
        generateContent_def truncatedWorld_def worldOf_def textResponse_def textOr_def
        JSON_parse_def lexStart_def isWhite_def isDigit_def arrayMap_def
        appOf_def ideationState_def initialState_def findPersona_def jakob_def)

lemma jsonMatch_Some_iff:
  "jsonMatch t = Some m \<longleftrightarrow>
     (\<exists>pre mid post. t = pre @ CHR ''['' # mid @ CHR '']'' # post \<and>
        CHR ''['' \<notin> set pre \<and> CHR '']'' \<notin> set post \<and> m = CHR ''['' # mid @ [CHR '']''])"
proof
  assume a: "jsonMatch t = Some m"
  define r where "r = dropWhile (\<lambda>c. c \<noteq> CHR ''['') t"
  define x where "x = rev (tl r)"
  define y where "y = dropWhile (\<lambda>c. c \<noteq> CHR '']'') x"
  from a have rne: "r \<noteq> []" and yne: "y \<noteq> []" and m: "m = CHR ''['' # rev y"
    by (auto simp: jsonMatch_def Let_def r_def x_def y_def split: if_splits)
  have hr: "hd r = CHR ''[''"
    using rne hd_dropWhile[of "\<lambda>c. c \<noteq> CHR ''[''" t] by (simp add: r_def)
  have "t = takeWhile (\<lambda>c. c \<noteq> CHR ''['') t @ r"
    by (simp add: r_def)
  moreover have "r = CHR ''['' # tl r"
    using rne hr by (cases r) auto
  ultimately have t: "t = takeWhile (\<lambda>c. c \<noteq> CHR ''['') t @ CHR ''['' # tl r"
    by simp
  have hy: "hd y = CHR '']''"
    using yne hd_dropWhile[of "\<lambda>c. c \<noteq> CHR '']''" x] by (simp add: y_def)
  have "x = takeWhile (\<lambda>c. c \<noteq> CHR '']'') x @ y"
    by (simp add: y_def)
  moreover have "y = CHR '']'' # tl y"
    using yne hy by (cases y) auto
  ultimately have x: "x = takeWhile (\<lambda>c. c \<noteq> CHR '']'') x @ CHR '']'' # tl y"
    by simp
  have "tl r = rev x" by (simp add: x_def)
  also have "\<dots> = rev (tl y) @ CHR '']'' # rev (takeWhile (\<lambda>c. c \<noteq> CHR '']'') x)"
    by (subst x) simp
  finally have tlr: "tl r = rev (tl y) @ CHR '']'' # rev (takeWhile (\<lambda>c. c \<noteq> CHR '']'') x)" .
  have ry: "rev y = rev (tl y) @ [CHR '']'']"
    using yne hy by (cases y) auto
  have p1: "CHR ''['' \<notin> set (takeWhile (\<lambda>c. c \<noteq> CHR ''['') t)"
    by (auto dest: set_takeWhileD)
  have p2: "CHR '']'' \<notin> set (rev (takeWhile (\<lambda>c. c \<noteq> CHR '']'') x))"
    by (auto dest: set_takeWhileD)
  show "\<exists>pre mid post. t = pre @ CHR ''['' # mid @ CHR '']'' # post \<and>
        CHR ''['' \<notin> set pre \<and> CHR '']'' \<notin> set post \<and> m = CHR ''['' # mid @ [CHR '']'']"
    using t tlr ry m p1 p2 by metis
next
  assume "\<exists>pre mid post. t = pre @ CHR ''['' # mid @ CHR '']'' # post \<and>
        CHR ''['' \<notin> set pre \<and> CHR '']'' \<notin> set post \<and> m = CHR ''['' # mid @ [CHR '']'']"
  then obtain pre mid post where t: "t = pre @ CHR ''['' # mid @ CHR '']'' # post"
    and pre: "CHR ''['' \<notin> set pre" and post: "CHR '']'' \<notin> set post"
    and m: "m = CHR ''['' # mid @ [CHR '']'']"
    by blast
  have r: "dropWhile (\<lambda>c. c \<noteq> CHR ''['') t = CHR ''['' # mid @ CHR '']'' # post"
    using pre by (auto simp: t dropWhile_append3)
  have "dropWhile (\<lambda>c. c \<noteq> CHR '']'') (rev post @ CHR '']'' # rev mid) = CHR '']'' # rev mid"
    using post by (auto simp: dropWhile_append3)
  then have "rev (dropWhile (\<lambda>c. c \<noteq> CHR '']'') (rev (mid @ CHR '']'' # post))) = mid @ [CHR '']'']"
    by simp
  with r m show "jsonMatch t = Some m"
    by (simp add: jsonMatch_def)
qed

text \<open>
  C6 at a failing input. A search-augmented response with prose around the array gives the
  ideas of the array, and one with no bracket gives the empty list. When a bracket follows
  the array (a citation), the first complete array, found by bracket matching, is there
  and parses to one idea; the code takes the span from the first \<open>[\<close> to the last \<open>]\<close>
  of the text, which is not JSON, and returns the empty list.
\<close>

theorem autoTrends_misses_array_before_brackets:
  "fst (generateAutoTrends (worldOf [Some (textResponse mixedText)]) (Some jakob) []) =
     Inr [\<lparr> i_id = ''p1-trend-123-0'', personaId = ''p1'', title = JStr ''A'',
             description = JStr ''Description unavailable'', selected = False \<rparr>] \<and>
   fst (generateAutoTrends (worldOf [Some (textResponse proseText)]) (Some jakob) []) = Inr [] \<and>
   firstCompleteArray citedText = Some ''[{\"title\":\"A\",\"description\":\"B\"}]'' \<and>
   JSON_parse ''[{\"title\":\"A\",\"description\":\"B\"}]'' =
     Some (JArr [JObj [(''title'', JStr ''A''), (''description'', JStr ''B'')]]) \<and>
   jsonMatch citedText = Some citedText \<and>
   JSON_parse citedText = None \<and>
   fst (generateAutoTrends (worldOf [Some (textResponse citedText)]) (Some jakob) []) = Inr []"
  by (simp add: firstCompleteArray_def citedText_def mixedText_def proseText_def
        generateAutoTrends_def trendRaw_def
        jsonMatch_def generateContent_def worldOf_def textResponse_def textOr_def
        JSON_parse_def lexStart_def isWhite_def isDigit_def arrayMap_def trendIdea_def
        nullish_def orElse_def jakob_def showNat.simps digitChar_def)

text \<open>The mapping of the parsed array is outside the \<open>try\<close>: an element that is \<open>null\<close>
  makes it throw.\<close>

lemma autoTrends_null_element_throws:
  "fst (generateAutoTrends (worldOf [Some (textResponse ''Ideas: [null]'')]) (Some jakob) []) =
     Inl TypeError"
  by (simp add: generateAutoTrends_def trendRaw_def jsonMatch_def generateContent_def
        worldOf_def textResponse_def textOr_def JSON_parse_def lexStart_def isWhite_def
        isDigit_def arrayMap_def trendIdea_def nullish_def)

subsection \<open>Keys of the stage maps\<close>

lemma selectedIdeaOf_map_of: "selectedIdeaOf s pid = Some iid \<Longrightarrow> map_of (selectedIdeaIds s) pid = Some iid"
  by (auto simp: selectedIdeaOf_def split: option.splits if_splits)

lemma find_idea: "find (\<lambda>i. i_id i = iid) ideas = Some idea \<Longrightarrow> i_id idea = iid \<and> iid \<in> i_id ` set ideas"
  by (auto simp: find_Some_iff)

lemma reachableI:
  "pid \<in> set (selectedPersonaIds s) \<Longrightarrow> map_of (selectedIdeaIds s) pid = Some iid \<Longrightarrow>
   map_of (generatedIdeas s) pid = Some ideas \<Longrightarrow> find (\<lambda>i. i_id i = iid) ideas = Some idea \<Longrightarrow>
   reachableIdea s iid"
  unfolding reachableIdea_def using find_idea[of iid ideas idea] by blast

lemma refinementLoop_keys:
  assumes "refinementLoop e ps s pids m log = (Inr m', log')"
    and "set pids \<subseteq> set (selectedPersonaIds s)"
    and "\<forall>k\<in>fst ` set m. reachableIdea s k"
  shows "\<forall>k\<in>fst ` set m'. reachableIdea s k"
  using assms
proof (induction pids arbitrary: m log)
  case Nil
  then show ?case by simp
next
  case (Cons pid pids)
  from Cons.prems(2) have sub: "set pids \<subseteq> set (selectedPersonaIds s)"
    and pin: "pid \<in> set (selectedPersonaIds s)" by auto
  show ?case
  proof (cases "selectedIdeaOf s pid")
    case None
    with Cons.prems(1) have "refinementLoop e ps s pids m log = (Inr m', log')" by simp
    from Cons.IH[OF this sub Cons.prems(3)] show ?thesis .
  next
    case (Some iid)
    note sel = this
    show ?thesis
    proof (cases "map_of (generatedIdeas s) pid")
      case None
      with sel Cons.prems(1) show ?thesis by simp
    next
      case (Some ideas)
      note gi = this
      show ?thesis
      proof (cases "find (\<lambda>i. i_id i = iid) ideas")
        case None
        with sel gi Cons.prems(1) have "refinementLoop e ps s pids m log = (Inr m', log')"
          by simp
        from Cons.IH[OF this sub Cons.prems(3)] show ?thesis .
      next
        case (Some idea)
        obtain r log1 where c:
          "analyzeIdeaRequirements e idea (findPersona ps pid) log = (r, log1)"
          by (cases "analyzeIdeaRequirements e idea (findPersona ps pid) log")
        with sel gi Some Cons.prems(1) obtain reqs where
          rest: "refinementLoop e ps s pids (AList.update (i_id idea) reqs m) log1 = (Inr m', log')"
          by (cases r) auto
        have "reachableIdea s (i_id idea)"
          using reachableI[OF pin selectedIdeaOf_map_of[OF sel] gi Some] find_idea[OF Some]
          by simp
        with Cons.prems(3) have
          "\<forall>k\<in>fst ` set (AList.update (i_id idea) reqs m). reachableIdea s k"
          by (auto simp: dom_update)
        from Cons.IH[OF rest sub this] show ?thesis .
      qed
    qed
  qed
qed

lemma images_Inr_idea:
  "generateUGCImages e persona idea reqs count q log = (Inr images, log') \<Longrightarrow> idea \<noteq> None"
  by (auto simp: generateUGCImages_def split: option.splits)

lemma caption_Inr_idea:
  "generateCaptionStrategy e persona idea log = (Inr c, log') \<Longrightarrow> idea \<noteq> None"
  by (auto simp: generateCaptionStrategy_def split: option.splits)

lemma generationLoop_keys:
  assumes "generationLoop e ps s count q pids m log = (Inr m', log')"
    and "set pids \<subseteq> set (selectedPersonaIds s)"
    and "\<forall>k\<in>fst ` set m. reachableIdea s k"
  shows "\<forall>k\<in>fst ` set m'. reachableIdea s k"
  using assms
proof (induction pids arbitrary: m log)
  case Nil
  then show ?case by simp
next
  case (Cons pid pids)
  from Cons.prems(2) have sub: "set pids \<subseteq> set (selectedPersonaIds s)"
    and pin: "pid \<in> set (selectedPersonaIds s)" by auto
  show ?case
  proof (cases "selectedIdeaOf s pid")
    case None
    with Cons.prems(1) have "generationLoop e ps s count q pids m log = (Inr m', log')" by simp
    from Cons.IH[OF this sub Cons.prems(3)] show ?thesis .
  next
    case (Some iid)
    note sel = this
    show ?thesis
    proof (cases "map_of (generatedIdeas s) pid")
      case None
      with sel Cons.prems(1) show ?thesis by simp
    next
      case (Some ideas)
      define reqs where
        "reqs = (case map_of (refinementData s) iid of None \<Rightarrow> [] | Some reqs \<Rightarrow> reqs)"
      obtain r log1 where c:
        "generateUGCImages e (findPersona ps pid) (find (\<lambda>i. i_id i = iid) ideas) reqs count q log
           = (r, log1)"
        by (cases "generateUGCImages e (findPersona ps pid) (find (\<lambda>i. i_id i = iid) ideas)
                     reqs count q log")
      with sel Some Cons.prems(1) obtain images where r: "r = Inr images" and
        rest: "generationLoop e ps s count q pids (AList.update iid images m) log1 = (Inr m', log')"
        by (cases r) (auto simp: reqs_def[symmetric])
      from c r images_Inr_idea obtain idea where
        fi: "find (\<lambda>i. i_id i = iid) ideas = Some idea" by blast
      have "reachableIdea s iid"
        using reachableI[OF pin selectedIdeaOf_map_of[OF sel] Some fi] .
      with Cons.prems(3) have "\<forall>k\<in>fst ` set (AList.update iid images m). reachableIdea s k"
        by (auto simp: dom_update)
      from Cons.IH[OF rest sub this] show ?thesis .
    qed
  qed
qed

lemma captionsLoop_keys:
  assumes "captionsLoop e ps s pids m log = (Inr m', log')"
    and "set pids \<subseteq> set (selectedPersonaIds s)"
    and "\<forall>k\<in>fst ` set m. reachableIdea s k"
  shows "\<forall>k\<in>fst ` set m'. reachableIdea s k"
  using assms
proof (induction pids arbitrary: m log)
  case Nil
  then show ?case by simp
next
  case (Cons pid pids)
  from Cons.prems(2) have sub: "set pids \<subseteq> set (selectedPersonaIds s)"
    and pin: "pid \<in> set (selectedPersonaIds s)" by auto
  show ?case
  proof (cases "map_of (generatedIdeas s) pid")
    case None
    with Cons.prems(1) show ?thesis by simp
  next
    case (Some ideas)
    note gi = this
    show ?thesis
    proof (cases "map_of (selectedIdeaIds s) pid")
      case None
      with gi Cons.prems(1) show ?thesis by simp
    next
      case (Some iid)
      obtain r log1 where c:
        "generateCaptionStrategy e (findPersona ps pid) (find (\<lambda>i. i_id i = iid) ideas) log
           = (r, log1)"
        by (cases "generateCaptionStrategy e (findPersona ps pid)
                     (find (\<lambda>i. i_id i = iid) ideas) log")
      with gi Some Cons.prems(1) obtain cap where r: "r = Inr cap" and
        rest: "captionsLoop e ps s pids (AList.update iid cap m) log1 = (Inr m', log')"
        by (cases r) auto
      from c r caption_Inr_idea obtain idea where
        fi: "find (\<lambda>i. i_id i = iid) ideas = Some idea" by blast
      have "reachableIdea s iid"
        using reachableI[OF pin Some gi fi] .
      with Cons.prems(3) have "\<forall>k\<in>fst ` set (AList.update iid cap m). reachableIdea s k"
        by (auto simp: dom_update)
      from Cons.IH[OF rest sub this] show ?thesis .
    qed
  qed
qed

subsection \<open>What holds along every run\<close>

lemma generateIdeas_frame:
  "\<exists>ideasMap st md. (st = Ideation \<or> st = step (wstate a)) \<and>
     wstate (generateIdeas e m a) = (wstate a) \<lparr> generatedIdeas := ideasMap, mode := md, step := st \<rparr>"
proof (cases "ideasLoop e (personas a) m (manualActivityInput (wstate a))
                (selectedPersonaIds (wstate a)) [] (requests a)")
  case (Pair r log')
  show ?thesis
  proof (cases r)
    case (Inl err)
    with Pair have "wstate (generateIdeas e m a) = wstate a" by (simp add: generateIdeas_def)
    then have "wstate (generateIdeas e m a) =
        (wstate a) \<lparr> generatedIdeas := generatedIdeas (wstate a), mode := mode (wstate a),
                     step := step (wstate a) \<rparr>" by simp
    then show ?thesis by blast
  next
    case (Inr ideasMap)
    with Pair have "wstate (generateIdeas e m a) =
        (wstate a) \<lparr> generatedIdeas := ideasMap, mode := Some m, step := Ideation \<rparr>"
      by (simp add: generateIdeas_def)
    then show ?thesis by blast
  qed
qed

lemma regenerateIdea_frame:
  "\<exists>ideasMap. wstate (regenerateIdea e pid a) = (wstate a) \<lparr> generatedIdeas := ideasMap \<rparr>"
proof -
  have "wstate (regenerateIdea e pid a) = wstate a \<or>
      (\<exists>newIdeas. wstate (regenerateIdea e pid a) =
         (wstate a) \<lparr> generatedIdeas := AList.update pid newIdeas (generatedIdeas (wstate a)) \<rparr>)"
    by (auto simp: regenerateIdea_def split: prod.splits sum.splits)
  moreover have "wstate a = (wstate a) \<lparr> generatedIdeas := generatedIdeas (wstate a) \<rparr>"
    by simp
  ultimately show ?thesis by metis
qed

lemma proceedToRefinement_cases:
  "wstate (proceedToRefinement e a) = wstate a \<or>
   (\<exists>m'. wstate (proceedToRefinement e a) = (wstate a) \<lparr> refinementData := m', step := Refinement \<rparr> \<and>
      (\<forall>k\<in>fst ` set m'. reachableIdea (wstate a) k))"
proof (cases "refinementLoop e (personas a) (wstate a) (selectedPersonaIds (wstate a)) []
                (requests a)")
  case (Pair r log')
  show ?thesis
  proof (cases r)
    case (Inl err)
    with Pair show ?thesis by (simp add: proceedToRefinement_def)
  next
    case (Inr m')
    with Pair refinementLoop_keys[of e "personas a" "wstate a" "selectedPersonaIds (wstate a)"
        "[]" "requests a" m' log']
    have k: "\<forall>k\<in>fst ` set m'. reachableIdea (wstate a) k" by simp
    from Pair Inr have "wstate (proceedToRefinement e a) =
        (wstate a) \<lparr> refinementData := m', step := Refinement \<rparr>"
      by (simp add: proceedToRefinement_def)
    with k show ?thesis by blast
  qed
qed

lemma proceedToGeneration_cases:
  "wstate (proceedToGeneration e a) = (wstate a) \<lparr> step := Generation \<rparr> \<or>
   (\<exists>m'. wstate (proceedToGeneration e a) = (wstate a) \<lparr> generatedImages := m', step := Editing \<rparr> \<and>
      (\<forall>k\<in>fst ` set m'. reachableIdea (wstate a) k))"
proof (cases "generationLoop e (personas a) (wstate a) (genCount a) (genQuality a)
                (selectedPersonaIds (wstate a)) [] (requests a)")
  case (Pair r log')
  show ?thesis
  proof (cases r)
    case (Inl err)
    with Pair show ?thesis by (simp add: proceedToGeneration_def)
  next
    case (Inr m')
    with Pair generationLoop_keys[of e "personas a" "wstate a" "genCount a" "genQuality a"
        "selectedPersonaIds (wstate a)" "[]" "requests a" m' log']
    have k: "\<forall>k\<in>fst ` set m'. reachableIdea (wstate a) k" by simp
    from Pair Inr have "wstate (proceedToGeneration e a) =
        (wstate a) \<lparr> generatedImages := m', step := Editing \<rparr>"
      by (simp add: proceedToGeneration_def)
    with k show ?thesis by blast
  qed
qed

lemma proceedToCaptions_cases:
  "wstate (proceedToCaptions e a) = (wstate a) \<lparr> step := Captions \<rparr> \<or>
   (\<exists>m'. wstate (proceedToCaptions e a) = (wstate a) \<lparr> captions := m', step := Captions \<rparr> \<and>
      (\<forall>k\<in>fst ` set m'. reachableIdea (wstate a) k))"
proof (cases "captionsLoop e (personas a) (wstate a) (selectedPersonaIds (wstate a)) []
                (requests a)")
  case (Pair r log')
  show ?thesis
  proof (cases r)
    case (Inl err)
    with Pair show ?thesis by (simp add: proceedToCaptions_def)
  next
    case (Inr m')
    with Pair captionsLoop_keys[of e "personas a" "wstate a"
        "selectedPersonaIds (wstate a)" "[]" "requests a" m' log']
    have k: "\<forall>k\<in>fst ` set m'. reachableIdea (wstate a) k" by simp
    from Pair Inr have "wstate (proceedToCaptions e a) =
        (wstate a) \<lparr> captions := m', step := Captions \<rparr>"
      by (simp add: proceedToCaptions_def)
    with k show ?thesis by blast
  qed
qed

lemma update_existing_keys:
  "map_of al k = Some v \<Longrightarrow> fst ` set (AList.update k v' al) = fst ` set al"
  by (auto simp: dom_update dest: map_of_SomeD intro: rev_image_eqI)

lemma handleEditImage_cases:
  "wstate (handleEditImage e iid imageId a) = wstate a \<or>
   (\<exists>m'. wstate (handleEditImage e iid imageId a) = (wstate a) \<lparr> generatedImages := m' \<rparr> \<and>
      fst ` set m' = fst ` set (generatedImages (wstate a)))"
proof (cases "map_of (generatedImages (wstate a)) iid")
  case None
  then show ?thesis by (simp add: handleEditImage_def split: option.splits)
next
  case (Some images)
  show ?thesis
  proof (cases "map_of (editInputs a) imageId")
    case None
    then show ?thesis by (simp add: handleEditImage_def)
  next
    case inp: (Some input)
    obtain r log' where c: "editImageWithChat e (find (\<lambda>img. g_id img = imageId) images)
        input None (requests a) = (r, log')"
      by (cases "editImageWithChat e (find (\<lambda>img. g_id img = imageId) images)
        input None (requests a)")
    show ?thesis
    proof (cases r)
      case (Inl err)
      with Some inp c show ?thesis by (simp add: handleEditImage_def)
    next
      case (Inr newImage)
      define m' where "m' = AList.update iid
          (map (\<lambda>img. if g_id img = imageId then newImage else img) images)
          (generatedImages (wstate a))"
      have keys: "fst ` set m' = fst ` set (generatedImages (wstate a))"
        unfolding m'_def using Some by (rule update_existing_keys)
      have "wstate (handleEditImage e iid imageId a) = wstate a \<or>
          wstate (handleEditImage e iid imageId a) = (wstate a) \<lparr> generatedImages := m' \<rparr>"
        using Some inp c Inr by (simp add: handleEditImage_def m'_def)
      with keys show ?thesis by blast
    qed
  qed
qed

lemma handleRefinementInput_cases:
  "wstate (handleRefinementInput iid reqId val a) = wstate a \<or>
   (\<exists>m'. wstate (handleRefinementInput iid reqId val a) = (wstate a) \<lparr> refinementData := m' \<rparr> \<and>
      fst ` set m' = fst ` set (refinementData (wstate a)))"
proof (cases "map_of (refinementData (wstate a)) iid")
  case None
  then show ?thesis by (simp add: handleRefinementInput_def)
next
  case (Some reqs)
  define m' where "m' = AList.update iid
      (map (\<lambda>r. if r_id r = reqId then r \<lparr> userResponse := val \<rparr> else r) reqs)
      (refinementData (wstate a))"
  have keys: "fst ` set m' = fst ` set (refinementData (wstate a))"
    unfolding m'_def using Some by (rule update_existing_keys)
  have "wstate (handleRefinementInput iid reqId val a) = (wstate a) \<lparr> refinementData := m' \<rparr>"
    using Some by (simp add: handleRefinementInput_def m'_def)
  with keys show ?thesis by blast
qed

lemma useSuggestion_cases:
  "wstate (useSuggestion iid reqId a) = wstate a \<or>
   (\<exists>m'. wstate (useSuggestion iid reqId a) = (wstate a) \<lparr> refinementData := m' \<rparr> \<and>
      fst ` set m' = fst ` set (refinementData (wstate a)))"
proof (cases "map_of (refinementData (wstate a)) iid")
  case None
  then show ?thesis by (simp add: useSuggestion_def)
next
  case (Some reqs)
  show ?thesis
  proof (cases "find (\<lambda>r. r_id r = reqId) reqs")
    case None
    with Some show ?thesis by (simp add: useSuggestion_def)
  next
    case req: (Some req)
    with Some have "useSuggestion iid reqId a = handleRefinementInput iid reqId (suggestion req) a"
      by (simp add: useSuggestion_def)
    with handleRefinementInput_cases[of iid reqId "suggestion req" a] show ?thesis by simp
  qed
qed

lemma handleRefinementImage_cases:
  "wstate (handleRefinementImage iid reqId b a) = wstate a \<or>
   (\<exists>m'. wstate (handleRefinementImage iid reqId b a) = (wstate a) \<lparr> refinementData := m' \<rparr> \<and>
      fst ` set m' = fst ` set (refinementData (wstate a)))"
proof (cases b)
  case None
  then show ?thesis by (simp add: handleRefinementImage_def)
next
  case (Some full)
  show ?thesis
  proof (cases "map_of (refinementData (wstate a)) iid")
    case None
    with Some show ?thesis by (simp add: handleRefinementImage_def)
  next
    case reqs: (Some reqs)
    define m' where "m' = AList.update iid
        (map (\<lambda>r. if r_id r = reqId
                   then r \<lparr> referenceImage :=
                            (case splitOn (CHR '','') full of
                               x # cleanBase64 # rest \<Rightarrow> Some cleanBase64
                             | _ \<Rightarrow> None) \<rparr>
                   else r) reqs)
        (refinementData (wstate a))"
    have keys: "fst ` set m' = fst ` set (refinementData (wstate a))"
      unfolding m'_def using reqs by (rule update_existing_keys)
    have "wstate (handleRefinementImage iid reqId b a) = (wstate a) \<lparr> refinementData := m' \<rparr>"
      using Some reqs by (simp add: handleRefinementImage_def m'_def)
    with keys show ?thesis by blast
  qed
qed

lemma nextStep_complete:
  assumes "distinct (selectedPersonaIds s)"
    and "fst ` set (selectedIdeaIds s) \<subseteq> set (selectedPersonaIds s)"
    and "\<not> nextStepDisabled s"
  shows "set (selectedPersonaIds s) \<subseteq> fst ` set (selectedIdeaIds s)"
proof -
  from assms(3) have "card (fst ` set (selectedIdeaIds s)) = length (selectedPersonaIds s)"
    by (simp add: nextStepDisabled_def objectKeys_def length_remdups_card_conv)
  also have "\<dots> = card (set (selectedPersonaIds s))"
    using assms(1) by (simp add: distinct_card)
  finally have "fst ` set (selectedIdeaIds s) = set (selectedPersonaIds s)"
    using assms(2) by (simp add: card_subset_eq)
  then show ?thesis by simp
qed

lemma runInv_refinementData:
  assumes "runInv s" "pastIdeation (step s)" "fst ` set m' = fst ` set (refinementData s)"
  shows "runInv (s \<lparr> refinementData := m' \<rparr>)"
  using assms by (simp add: runInv_def keysReachable_def reachableIdea_def)

lemma runInv_generatedImages:
  assumes "runInv s" "pastIdeation (step s)" "fst ` set m' = fst ` set (generatedImages s)"
  shows "runInv (s \<lparr> generatedImages := m' \<rparr>)"
  using assms by (simp add: runInv_def keysReachable_def reachableIdea_def)

lemma clickNextStep_inv:
  assumes "runInv (wstate a)"
  shows "runInv (wstate (clickNextStep e a))"
proof (cases "step (wstate a) = Ideation \<and> objectKeys (generatedIdeas (wstate a)) \<noteq> []
         \<and> \<not> nextStepDisabled (wstate a)")
  case False
  then have "clickNextStep e a = a" by (auto simp: clickNextStep_def)
  with assms show ?thesis by simp
next
  case True
  then have click: "clickNextStep e a = proceedToRefinement e a" by (simp add: clickNextStep_def)
  from assms True have d: "distinct (selectedPersonaIds (wstate a))"
    and sub: "fst ` set (selectedIdeaIds (wstate a)) \<subseteq> set (selectedPersonaIds (wstate a))"
    and empty: "generatedImages (wstate a) = []" "captions (wstate a) = []"
    by (auto simp: runInv_def keysReachable_def pastIdeation_def)
  from nextStep_complete[OF d sub] True
  have all: "set (selectedPersonaIds (wstate a)) \<subseteq> fst ` set (selectedIdeaIds (wstate a))"
    by simp
  from proceedToRefinement_cases[of e a] show ?thesis
  proof
    assume "wstate (proceedToRefinement e a) = wstate a"
    with assms click show ?thesis by simp
  next
    assume "\<exists>m'. wstate (proceedToRefinement e a) =
        (wstate a) \<lparr> refinementData := m', step := Refinement \<rparr> \<and>
        (\<forall>k\<in>fst ` set m'. reachableIdea (wstate a) k)"
    then obtain m' where w: "wstate (proceedToRefinement e a) =
        (wstate a) \<lparr> refinementData := m', step := Refinement \<rparr>"
      and k: "\<forall>k\<in>fst ` set m'. reachableIdea (wstate a) k" by blast
    show ?thesis
      using d sub all empty k
      by (simp add: click w runInv_def keysReachable_def pastIdeation_def reachableIdea_def)
  qed
qed

lemma run_inv: "run a \<Longrightarrow> runInv (wstate a)"
proof (induction rule: run.induct)
  case (fresh a)
  then show ?case by (simp add: runInv_def initialState_def pastIdeation_def keysReachable_def)
next
  case (editPersonas a ps)
  then show ?case by simp
next
  case (enhance a e profile)
  then show ?case by simp
next
  case (deletePersona a p confirmed)
  then show ?case
    by (auto simp: runInv_def handleDeletePersona_def pastIdeation_def keysReachable_def)
next
  case (startCreating a)
  then show ?case
    by (auto simp: runInv_def handleStartCreating_def pastIdeation_def keysReachable_def)
next
  case (toDashboard a)
  then show ?case
    by (auto simp: runInv_def backToDashboard_def pastIdeation_def keysReachable_def)
next
  case (toggle a p)
  then show ?case
    by (auto simp: runInv_def togglePersonaSelection_def pastIdeation_def keysReachable_def)
next
  case (toIdeation a)
  then show ?case
    by (auto simp: runInv_def proceedToIdeation_def pastIdeation_def keysReachable_def)
next
  case (manual a)
  then show ?case
    by (auto simp: runInv_def chooseManual_def pastIdeation_def keysReachable_def)
next
  case (auto a e)
  from generateIdeas_frame[of a e Auto] obtain ideasMap st md where
    "st = Ideation \<or> st = step (wstate a)"
    "wstate (generateIdeas e Auto a) =
       (wstate a) \<lparr> generatedIdeas := ideasMap, mode := md, step := st \<rparr>" by blast
  with auto show ?case
    by (auto simp: runInv_def pastIdeation_def keysReachable_def)
next
  case (toModes a)
  then show ?case
    by (auto simp: runInv_def backToModes_def pastIdeation_def keysReachable_def)
next
  case (brief a t)
  then show ?case
    by (auto simp: runInv_def setManualActivityInput_def pastIdeation_def keysReachable_def)
next
  case (variants a e)
  from generateIdeas_frame[of a e Manual] obtain ideasMap st md where
    "st = Ideation \<or> st = step (wstate a)"
    "wstate (generateIdeas e Manual a) =
       (wstate a) \<lparr> generatedIdeas := ideasMap, mode := md, step := st \<rparr>" by blast
  with variants show ?case
    by (auto simp: runInv_def pastIdeation_def keysReachable_def)
next
  case (regenerate a pid e)
  from regenerateIdea_frame[of e pid a] obtain ideasMap where
    "wstate (regenerateIdea e pid a) = (wstate a) \<lparr> generatedIdeas := ideasMap \<rparr>" by blast
  with regenerate show ?case
    by (auto simp: runInv_def pastIdeation_def keysReachable_def)
next
  case (pick a pid ideas idea)
  then show ?case
    by (auto simp: runInv_def selectIdea_def pastIdeation_def keysReachable_def dom_update)
next
  case (nextStep a e)
  then show ?case by (simp add: clickNextStep_inv)
next
  case (answer a iid reqId t)
  then have p: "pastIdeation (step (wstate a))" by (simp add: pastIdeation_def)
  from handleRefinementInput_cases[of iid reqId "JStr t" a] answer.IH p show ?case
    by (auto intro: runInv_refinementData)
next
  case (autoFill a iid reqId)
  then have p: "pastIdeation (step (wstate a))" by (simp add: pastIdeation_def)
  from useSuggestion_cases[of iid reqId a] autoFill.IH p show ?case
    by (auto intro: runInv_refinementData)
next
  case (attach a iid reqId base64Full)
  then have p: "pastIdeation (step (wstate a))" by (simp add: pastIdeation_def)
  from handleRefinementImage_cases[of iid reqId base64Full a] attach.IH p show ?case
    by (auto intro: runInv_refinementData)
next
  case (settings a n q)
  then show ?case by simp
next
  case (toGeneration a e)
  from proceedToGeneration_cases[of e a] show ?case
  proof
    assume "wstate (proceedToGeneration e a) = (wstate a) \<lparr> step := Generation \<rparr>"
    with toGeneration show ?thesis
      by (simp add: runInv_def pastIdeation_def keysReachable_def reachableIdea_def)
  next
    assume "\<exists>m'. wstate (proceedToGeneration e a) =
        (wstate a) \<lparr> generatedImages := m', step := Editing \<rparr> \<and>
        (\<forall>k\<in>fst ` set m'. reachableIdea (wstate a) k)"
    then obtain m' where w: "wstate (proceedToGeneration e a) =
        (wstate a) \<lparr> generatedImages := m', step := Editing \<rparr>"
      and k: "\<forall>k\<in>fst ` set m'. reachableIdea (wstate a) k" by blast
    with toGeneration show ?thesis
      by (simp add: runInv_def pastIdeation_def keysReachable_def reachableIdea_def)
  qed
next
  case (typeEdit a imageId t)
  then show ?case by simp
next
  case (editImage a e iid imageId)
  then have p: "pastIdeation (step (wstate a))" by (simp add: pastIdeation_def)
  from handleEditImage_cases[of e iid imageId a] editImage.IH p show ?case
    by (auto intro: runInv_generatedImages)
next
  case (toCaptions a e)
  from proceedToCaptions_cases[of e a] show ?case
  proof
    assume "wstate (proceedToCaptions e a) = (wstate a) \<lparr> step := Captions \<rparr>"
    with toCaptions show ?thesis
      by (simp add: runInv_def pastIdeation_def keysReachable_def reachableIdea_def)
  next
    assume "\<exists>m'. wstate (proceedToCaptions e a) =
        (wstate a) \<lparr> captions := m', step := Captions \<rparr> \<and>
        (\<forall>k\<in>fst ` set m'. reachableIdea (wstate a) k)"
    then obtain m' where w: "wstate (proceedToCaptions e a) =
        (wstate a) \<lparr> captions := m', step := Captions \<rparr>"
      and k: "\<forall>k\<in>fst ` set m'. reachableIdea (wstate a) k" by blast
    with toCaptions show ?thesis
      by (simp add: runInv_def pastIdeation_def keysReachable_def reachableIdea_def)
  qed
qed

lemma demoIdeation_state:
  "wstate demoIdeation =
     initialState \<lparr> step := Ideation, selectedPersonaIds := [''p1''], mode := Some Manual,
                    generatedIdeas := [(''p1'', [ideaFor ''p1''])] \<rparr>"
  by (simp add: demoIdeation_def demoWorld_def generateIdeas_def chooseManual_def
        proceedToIdeation_def togglePersonaSelection_def handleStartCreating_def appOf_def
        initialState_def ideaFor_def generateManualVariants_def generateContent_def
        worldOf_def textResponse_def textOr_def findPersona_def jakob_def
        JSON_parse_def lexStart_def isWhite_def isDigit_def arrayMap_def manualIdea_def
        nullish_def showNat.simps digitChar_def)

lemma demoIdeation_run: "run demoIdeation"
proof -
  have r0: "run (appOf [jakob] initialState)"
    by (rule run.fresh) (simp add: appOf_def)
  have r1: "run (handleStartCreating (appOf [jakob] initialState))"
    by (rule run.startCreating[OF r0]) (simp_all add: appOf_def initialState_def)
  have "run (togglePersonaSelection (p_id jakob) (handleStartCreating (appOf [jakob] initialState)))"
    by (rule run.toggle[OF r1]) (simp_all add: handleStartCreating_def appOf_def)
  then have r2: "run (togglePersonaSelection ''p1'' (handleStartCreating (appOf [jakob] initialState)))"
    by (simp add: jakob_def)
  have r3: "run (proceedToIdeation (togglePersonaSelection ''p1''
      (handleStartCreating (appOf [jakob] initialState))))"
    by (rule run.toIdeation[OF r2])
       (simp add: togglePersonaSelection_def handleStartCreating_def appOf_def)
  have r4: "run (chooseManual (proceedToIdeation (togglePersonaSelection ''p1''
      (handleStartCreating (appOf [jakob] initialState)))))"
    by (rule run.manual[OF r3])
       (simp_all add: proceedToIdeation_def togglePersonaSelection_def handleStartCreating_def
          appOf_def initialState_def)
  show ?thesis
    unfolding demoIdeation_def
    by (rule run.variants[OF r4])
       (simp_all add: chooseManual_def proceedToIdeation_def togglePersonaSelection_def
          handleStartCreating_def appOf_def initialState_def objectKeys_def)
qed

lemma demo_run: "run demoApp"
proof -
  have "run (selectIdea ''p1'' (i_id (ideaFor ''p1'')) demoIdeation)"
    by (rule run.pick[OF demoIdeation_run, where ideas = "[ideaFor ''p1'']"])
       (simp_all add: demoIdeation_state objectKeys_def)
  then have "run (selectIdea ''p1'' ''p1-idea-123-0'' demoIdeation)"
    by (simp add: ideaFor_def)
  then show ?thesis
    unfolding demoApp_def by (rule run.nextStep)
qed

lemma demoApp_state:
  "wstate demoApp =
     initialState \<lparr> step := Refinement, selectedPersonaIds := [''p1''], mode := Some Manual,
                    generatedIdeas := [(''p1'', [ideaFor ''p1''])],
                    selectedIdeaIds := [(''p1'', ''p1-idea-123-0'')],
                    refinementData := [(''p1-idea-123-0'', [])] \<rparr>"
proof -
  have req: "length (requests demoIdeation) = 1" and ps: "personas demoIdeation = [jakob]"
    by (simp_all add: demoIdeation_def demoWorld_def generateIdeas_def chooseManual_def
        proceedToIdeation_def togglePersonaSelection_def handleStartCreating_def appOf_def
        initialState_def generateManualVariants_def generateContent_def
        worldOf_def textResponse_def textOr_def findPersona_def jakob_def
        JSON_parse_def lexStart_def isWhite_def isDigit_def arrayMap_def manualIdea_def
        nullish_def)
  show ?thesis
    using req ps
    by (simp add: demoApp_def clickNextStep_def nextStepDisabled_def objectKeys_def
          selectIdea_def demoIdeation_state initialState_def ideaFor_def
          proceedToRefinement_def selectedIdeaOf_def analyzeIdeaRequirements_def
          generateContent_def demoWorld_def worldOf_def textResponse_def textOr_def
          findPersona_def jakob_def
          JSON_parse_def lexStart_def isWhite_def isDigit_def arrayMap_def)
qed

subsection \<open>Leaving ideation\<close>

text \<open>
  C1 (as amended). In every run of the application, when the step is past ideation,
  \<open>selectedIdeaIds\<close> has an entry for every id in \<open>selectedPersonaIds\<close>: the Next Step
  button of the ideation view, which alone calls \<open>proceedToRefinement\<close>, is disabled unless
  \<open>selectedIdeaIds\<close> has as many keys as there are selected personas.
\<close>

theorem past_ideation_every_persona_has_idea:
  assumes "run a" and "pastIdeation (step (wstate a))"
  shows "\<forall>pid\<in>set (selectedPersonaIds (wstate a)). pid \<in> fst ` set (selectedIdeaIds (wstate a))"
  using run_inv[OF assms(1)] assms(2) by (auto simp: runInv_def)

text \<open>The run up to the refinement step.\<close>

theorem past_ideation_every_persona_has_idea_witness:
  "step (wstate demoApp) = Refinement \<and>
   selectedPersonaIds (wstate demoApp) = [''p1''] \<and>
   ''p1'' \<in> fst ` set (selectedIdeaIds (wstate demoApp))"
  using past_ideation_every_persona_has_idea[OF demo_run]
  by (simp add: demoApp_state pastIdeation_def initialState_def)

text \<open>
  C1 as stated fails: \<open>proceedToRefinement\<close> does not refuse. Called in the ideation step
  with a selected persona that has no selected idea, it skips the persona and sets the
  step to refinement.
\<close>

theorem proceedToRefinement_unguarded_counterexample:
  "step (wstate unselectedApp) = Ideation \<and>
   ''p1'' \<in> set (selectedPersonaIds (wstate unselectedApp)) \<and>
   ''p1'' \<notin> fst ` set (selectedIdeaIds (wstate unselectedApp)) \<and>
   step (wstate (proceedToRefinement (worldOf []) unselectedApp)) = Refinement \<and>
   errorMsg (proceedToRefinement (worldOf []) unselectedApp) = None"
  by (simp add: unselectedApp_def appOf_def ideationState_def initialState_def
        proceedToRefinement_def selectedIdeaOf_def)

subsection \<open>Image generation skips failed calls\<close>






subsection \<open>Editing an image\<close>





subsection \<open>Orphaned entries\<close>












text \<open>Deletion is offered on the dashboard, and there it leaves the invariant in place.\<close>

lemma delete_keeps_invariant:
  assumes "run a" and "step (wstate a) = Dashboard" and "p \<in> set (personas a)"
  shows "noOrphans (wstate (handleDeletePersona confirmed (p_id p) a))"
proof -
  have r: "run (handleDeletePersona confirmed (p_id p) a)"
    using assms by (rule run.deletePersona)
  have st: "step (wstate (handleDeletePersona confirmed (p_id p) a)) = Dashboard"
    using assms(2) by (simp add: handleDeletePersona_def)
  from run_inv[OF r] st show ?thesis
    by (simp add: runInv_def noOrphans_def selectionsLive_def)
qed


subsection \<open>Storage round trip\<close>

text \<open>
  C9 (as amended). A persona mapped to its storage row and back is the same object, except
  that an absent \<open>niche\<close> or \<open>refImages\<close> comes back as the empty list and an empty
  \<open>avatarUrl\<close> comes back as \<open>null\<close>.
\<close>

theorem persona_roundtrip:
  "mapPersonaFromDb (mapPersonaToDb (objectOf p)) =
     (objectOf p) \<lparr> o_avatarUrl := (if avatarUrl p = [] then JNull else JStr (avatarUrl p)) \<rparr>
   \<and> mapPersonaFromDb
       (mapPersonaToDb (objectOf p \<lparr> o_niche := JUndefined, o_refImages := JUndefined \<rparr>)) =
     (objectOf p) \<lparr> o_niche := JArr [], o_refImages := JArr [],
                    o_avatarUrl := (if avatarUrl p = [] then JNull else JStr (avatarUrl p)) \<rparr>"
  by (simp add: mapPersonaFromDb_def mapPersonaToDb_def objectOf_def orElse_def strings_def)

text \<open>
  C9 as stated fails: the persona saved with no avatar has \<open>avatarUrl = ""\<close>, with
  \<open>niche\<close> and \<open>refImages\<close> present, and the round trip changes it.
\<close>

theorem persona_roundtrip_counterexample:
  "mapPersonaFromDb (mapPersonaToDb (objectOf newPersona)) \<noteq> objectOf newPersona"
  by (simp add: mapPersonaFromDb_def mapPersonaToDb_def objectOf_def orElse_def strings_def
        newPersona_def)

end
